theory Spec2Isabelle
  imports Complex_Main "HOL-Library.Word" "HOL-Library.AList"
begin

unbundle bit_operations_syntax

section \<open>JavaScript values used by the services\<close>

text \<open>
  A JavaScript string is a sequence of UTF-16 code units: \<open>s.length\<close> counts them and
  \<open>s.charCodeAt(i)\<close> reads one. String literals of the source are ASCII and are
  embedded by \<open>lit\<close>.
\<close>

type_synonym jsstring = "16 word list"

definition lit :: "string \<Rightarrow> jsstring" where
  "lit s = map (\<lambda>c. of_nat (of_char c)) s"

text \<open>
  Survey and question identifiers are whatever the caller passes. The screens of this
  repository pass integer literals (\<open>survey.id\<close>, \<open>currentQuestion.id\<close>); strings are
  the other kind a key can have. A numeric key is an integer that a JavaScript number
  holds exactly (of magnitude below \<open>2^53\<close>): two of them are equal numbers only when
  they are the same integer, and each prints in plain decimal.
\<close>

typedef js_integer = "{n :: int. \<bar>n\<bar> < 2 ^ 53}"
  morphisms int_of JSInt
  by (rule exI [of _ 0]) simp

declare JSInt_inject [simp] JSInt_inverse [simp]

datatype js_key = KNum js_integer | KStr jsstring

text \<open>JavaScript truthiness of a key: \<open>0\<close> and the empty string are falsy.\<close>

fun truthy :: "js_key \<Rightarrow> bool" where
  "truthy (KNum n) = (int_of n \<noteq> 0)"
| "truthy (KStr s) = (s \<noteq> [])"

definition digit_unit :: "nat \<Rightarrow> 16 word" where
  "digit_unit d = (if d < 10 then of_nat (48 + d) else of_nat (87 + d))"

text \<open>
  \<open>Number.prototype.toString(radix)\<close> on a non-negative integer; the source uses the
  radices 10 (template literals, JSON) and 16 (the hash). JavaScript refuses a radix
  below 2, where the recursion here stops at once.
\<close>

fun nat_toString :: "nat \<Rightarrow> nat \<Rightarrow> jsstring" where
  "nat_toString radix n =
     (if n < radix \<or> radix < 2 then [digit_unit n]
      else nat_toString radix (n div radix) @ [digit_unit (n mod radix)])"

declare nat_toString.simps [simp del]

definition nat_str :: "nat \<Rightarrow> jsstring" where
  "nat_str n = nat_toString 10 n"

text \<open>
  An integer in decimal, as JavaScript prints the integers of magnitude below \<open>10^21\<close>:
  the numeric keys, and the year of a date.
\<close>

definition int_str :: "int \<Rightarrow> jsstring" where
  "int_str i = (if i < 0 then lit ''-'' @ nat_str (nat (- i)) else nat_str (nat i))"

fun key_str :: "js_key \<Rightarrow> jsstring" where
  "key_str (KNum n) = int_str (int_of n)"
| "key_str (KStr s) = s"

text \<open>
  The order IndexedDB keeps keys in: numbers by value, before strings by code units.
\<close>

fun units_le :: "jsstring \<Rightarrow> jsstring \<Rightarrow> bool" where
  "units_le [] t = True"
| "units_le (a # s) [] = False"
| "units_le (a # s) (b # t) = (a < b \<or> (a = b \<and> units_le s t))"

fun key_le :: "js_key \<Rightarrow> js_key \<Rightarrow> bool" where
  "key_le (KNum a) (KNum b) = (int_of a \<le> int_of b)"
| "key_le (KNum a) (KStr t) = True"
| "key_le (KStr s) (KNum b) = False"
| "key_le (KStr s) (KStr t) = units_le s t"

fun insert_by_key :: "js_key \<times> 'a \<Rightarrow> (js_key \<times> 'a) list \<Rightarrow> (js_key \<times> 'a) list" where
  "insert_by_key x [] = [x]"
| "insert_by_key x (y # ys) =
     (if key_le (fst x) (fst y) then x # y # ys else y # insert_by_key x ys)"

definition in_key_order :: "(js_key \<times> 'a) list \<Rightarrow> (js_key \<times> 'a) list" where
  "in_key_order al = foldr insert_by_key al []"

section \<open>Verification Service\<close>

subsection \<open>Data\<close>

text \<open>A GPS fix as \<open>simulateGetLocation\<close> resolves it.\<close>

record location =
  latitude :: real
  longitude :: real
  accuracy :: real
  timestamp :: jsstring

record device_info =
  userAgent :: jsstring
  platform :: jsstring
  language :: jsstring
  timezone :: jsstring
  screenResolution :: jsstring
  device_timestamp :: jsstring

text \<open>
  An answer as the survey screen hands it to \<open>logAnswer\<close>: a string (text and
  multiple choice), an object with an optional \<open>type\<close> and an optional \<open>blob\<close> (of which
  only \<open>blob.size\<close> is read), \<open>null\<close>, or any other primitive.
\<close>

datatype js_answer =
    AStr jsstring
  | AObj "jsstring option" "nat option"
  | ANull
  | AOther

text \<open>One element of \<open>answerTimestamps\<close>; \<open>log_location = None\<close> is \<open>location: null\<close>.\<close>

record answer_log =
  questionId :: js_key
  log_timestamp :: jsstring
  log_location :: "location option"
  answerType :: jsstring
  answerLength :: nat

record verification_data =
  surveyId :: "js_key option"
  startTime :: "jsstring option"
  endTime :: "jsstring option"
  startLocation :: "location option"
  endLocation :: "location option"
  environmentPhoto :: "jsstring option"
  answerTimestamps :: "answer_log list"
  locationHistory :: "location list"
  deviceInfo :: "device_info option"
  duration :: "int option"
  verificationHash :: "jsstring option"

text \<open>The object \<open>completeSurvey\<close> returns: a copy of the data with two more fields.\<close>

record verification_packet = verification_data +
  completedAt :: jsstring
  version :: jsstring

text \<open>The fields of the service object; \<open>locationWatcher\<close> holds the interval handle.\<close>

record recorder =
  currentSurvey :: "js_key option"
  verificationData :: verification_data
  locationWatcher :: "nat option"
  isTracking :: bool

datatype verification_error =
    VerificationInitFailed
  | NoActiveSurvey
  | VerificationCompletionFailed

text \<open>
  What the host gives and the source only calls: the rendering of a fractional number
  (\<open>Number::toString\<close>, used by \<open>JSON.stringify\<close> on coordinates) and the reading of
  an ISO time stamp as milliseconds (\<open>new Date(s)\<close>).
\<close>

record js_runtime =
  number_toString :: "real \<Rightarrow> jsstring"
  date_parse :: "jsstring \<Rightarrow> int"

definition initial_data :: verification_data where
  "initial_data =
     \<lparr>surveyId = None, startTime = None, endTime = None, startLocation = None,
      endLocation = None, environmentPhoto = None, answerTimestamps = [],
      locationHistory = [], deviceInfo = None, duration = None, verificationHash = None\<rparr>"

text \<open>The constructor.\<close>

definition new_recorder :: recorder where
  "new_recorder =
     \<lparr>currentSurvey = None, verificationData = initial_data, locationWatcher = None,
      isTracking = False\<rparr>"

text \<open>\<open>!!this.currentSurvey\<close>: the test every method uses for an active survey.\<close>

definition isActive :: "recorder \<Rightarrow> bool" where
  "isActive s = (case currentSurvey s of None \<Rightarrow> False | Some k \<Rightarrow> truthy k)"

subsection \<open>Location tracking\<close>

definition startLocationTracking :: "nat \<Rightarrow> recorder \<Rightarrow> recorder" where
  "startLocationTracking handle s =
     (if isTracking s then s
      else s\<lparr>isTracking := True, locationWatcher := Some handle\<rparr>)"

definition stopLocationTracking :: "recorder \<Rightarrow> recorder" where
  "stopLocationTracking s =
     (case locationWatcher s of
        None \<Rightarrow> s
      | Some h \<Rightarrow> s\<lparr>locationWatcher := None, isTracking := False\<rparr>)"

text \<open>\<open>xs.slice(-n)\<close>: the last \<open>n\<close> elements, all of them when there are fewer.\<close>

definition slice_last :: "nat \<Rightarrow> 'a list \<Rightarrow> 'a list" where
  "slice_last n xs = drop (length xs - n) xs"

text \<open>
  The body of the interval callback of \<open>startLocationTracking\<close>, run with the fix
  that \<open>simulateGetLocation\<close> resolved.
\<close>

definition location_sample :: "location \<Rightarrow> recorder \<Rightarrow> recorder" where
  "location_sample loc s =
     (let vd = verificationData s;
          pushed = locationHistory vd @ [loc];
          kept = (if length pushed > 10 then slice_last 10 pushed else pushed)
      in s\<lparr>verificationData := vd\<lparr>locationHistory := kept\<rparr>\<rparr>)"

subsection \<open>Starting a survey\<close>

text \<open>
  What one call reads from its surroundings: the clock, the location provider
  (\<open>None\<close> when its promise rejects), the device snapshot, the handle \<open>setInterval\<close>
  returns.
\<close>

record start_env =
  start_now :: jsstring
  start_fix :: "location option"
  start_device :: device_info
  start_handle :: nat

definition startSurvey ::
  "js_key \<Rightarrow> start_env \<Rightarrow> recorder \<Rightarrow> (verification_error + verification_data) \<times> recorder"
where
  "startSurvey sid env s =
     (let s1 = s\<lparr>currentSurvey := Some sid,
                   verificationData := initial_data\<lparr>surveyId := Some sid,
                     startTime := Some (start_now env),
                     deviceInfo := Some (start_device env)\<rparr>\<rparr>
      in case start_fix env of
           None \<Rightarrow> (Inl VerificationInitFailed, s1)
         | Some loc \<Rightarrow>
             (let s2 = s1\<lparr>verificationData := (verificationData s1)\<lparr>startLocation := Some loc\<rparr>\<rparr>;
                  s3 = startLocationTracking (start_handle env) s2
              in (Inr (verificationData s3), s3)))"

subsection \<open>Logging an answer\<close>

fun getAnswerType :: "js_answer \<Rightarrow> jsstring" where
  "getAnswerType (AStr s) = lit ''text''"
| "getAnswerType (AObj ty blob) =
     (if ty = Some (lit ''audio'') then lit ''audio''
      else if ty = Some (lit ''photo'') then lit ''photo''
      else lit ''object'')"
| "getAnswerType ANull = lit ''unknown''"
| "getAnswerType AOther = lit ''unknown''"

fun getAnswerLength :: "js_answer \<Rightarrow> nat" where
  "getAnswerLength (AStr s) = length s"
| "getAnswerLength (AObj ty (Some blob_size)) = blob_size"
| "getAnswerLength (AObj ty None) = 0"
| "getAnswerLength ANull = 0"
| "getAnswerLength AOther = 0"

record log_env =
  log_fix :: "location option"
  log_now :: jsstring

text \<open>
  Both branches of the \<open>try\<close>/\<open>catch\<close> push one entry; the \<open>catch\<close> branch, taken when
  the location promise rejects, pushes it with \<open>location: null\<close>. The promise of
  \<open>logAnswer\<close> itself resolves on every path.
\<close>

definition logAnswer ::
  "js_key \<Rightarrow> js_answer \<Rightarrow> log_env \<Rightarrow> recorder \<Rightarrow> (verification_error + unit) \<times> recorder"
where
  "logAnswer qid answer env s =
     (if \<not> isActive s then (Inr (), s)
      else
        (let vd = verificationData s;
             entry = \<lparr>questionId = qid, log_timestamp = log_now env,
                      log_location = log_fix env,
                      answerType = getAnswerType answer,
                      answerLength = getAnswerLength answer\<rparr>
         in (Inr (), s\<lparr>verificationData := vd\<lparr>answerTimestamps := answerTimestamps vd @ [entry]\<rparr>\<rparr>)))"

subsection \<open>The sampler and the answers of one survey, in arrival order\<close>

datatype recorder_event =
    Sample location
  | Answer js_key js_answer log_env

fun apply_event :: "recorder_event \<Rightarrow> recorder \<Rightarrow> recorder" where
  "apply_event (Sample loc) s = location_sample loc s"
| "apply_event (Answer qid a env) s = snd (logAnswer qid a env s)"

fun run_events :: "recorder_event list \<Rightarrow> recorder \<Rightarrow> recorder" where
  "run_events [] s = s"
| "run_events (e # es) s = run_events es (apply_event e s)"

fun samples_of :: "recorder_event list \<Rightarrow> location list" where
  "samples_of [] = []"
| "samples_of (Sample loc # es) = loc # samples_of es"
| "samples_of (Answer qid a env # es) = samples_of es"

subsection \<open>The verification hash\<close>

text \<open>
  \<open>JSON.stringify\<close> on the values the hash reads. A string is quoted with the escapes of
  \<open>QuoteJSONString\<close>: the two-character escapes, \<open>\uXXXX\<close> for the other control
  characters and for a surrogate that is not half of a pair.
\<close>

definition hex4 :: "16 word \<Rightarrow> jsstring" where
  "hex4 c =
     (let n = unat c
      in [digit_unit (n div 4096), digit_unit (n div 256 mod 16),
          digit_unit (n div 16 mod 16), digit_unit (n mod 16)])"

definition is_high_surrogate :: "16 word \<Rightarrow> bool" where
  "is_high_surrogate c = (0xD800 \<le> c \<and> c \<le> 0xDBFF)"

definition is_low_surrogate :: "16 word \<Rightarrow> bool" where
  "is_low_surrogate c = (0xDC00 \<le> c \<and> c \<le> 0xDFFF)"

definition json_escape_unit :: "16 word \<Rightarrow> jsstring" where
  "json_escape_unit c =
     (if c = 8 then [92, 98]
      else if c = 9 then [92, 116]
      else if c = 10 then [92, 110]
      else if c = 12 then [92, 102]
      else if c = 13 then [92, 114]
      else if c = 34 then [92, 34]
      else if c = 92 then [92, 92]
      else if c < 32 \<or> is_high_surrogate c \<or> is_low_surrogate c then [92, 117] @ hex4 c
      else [c])"

fun json_quote_units :: "jsstring \<Rightarrow> jsstring" where
  "json_quote_units [] = []"
| "json_quote_units [c] = json_escape_unit c"
| "json_quote_units (c # d # cs) =
     (if is_high_surrogate c \<and> is_low_surrogate d then c # d # json_quote_units cs
      else json_escape_unit c @ json_quote_units (d # cs))"

definition json_string :: "jsstring \<Rightarrow> jsstring" where
  "json_string s = [34] @ json_quote_units s @ [34]"

definition json_string_or_null :: "jsstring option \<Rightarrow> jsstring" where
  "json_string_or_null v = (case v of None \<Rightarrow> lit ''null'' | Some s \<Rightarrow> json_string s)"

definition json_key :: "js_key option \<Rightarrow> jsstring" where
  "json_key v =
     (case v of None \<Rightarrow> lit ''null'' | Some (KNum n) \<Rightarrow> int_str (int_of n) | Some (KStr s) \<Rightarrow> json_string s)"

fun join_members :: "jsstring list \<Rightarrow> jsstring" where
  "join_members [] = []"
| "join_members [m] = m"
| "join_members (m # ms) = m @ lit '','' @ join_members ms"

definition json_object :: "(string \<times> jsstring) list \<Rightarrow> jsstring" where
  "json_object members =
     lit ''{'' @ join_members (map (\<lambda>(name, v). json_string (lit name) @ lit '':'' @ v) members)
       @ lit ''}''"

definition json_location :: "js_runtime \<Rightarrow> location option \<Rightarrow> jsstring" where
  "json_location rt v =
     (case v of
        None \<Rightarrow> lit ''null''
      | Some loc \<Rightarrow>
          json_object
            [(''latitude'', number_toString rt (latitude loc)),
             (''longitude'', number_toString rt (longitude loc)),
             (''accuracy'', number_toString rt (accuracy loc)),
             (''timestamp'', json_string (timestamp loc))])"

text \<open>The string the hash is taken of.\<close>

definition hash_dataString :: "js_runtime \<Rightarrow> recorder \<Rightarrow> jsstring" where
  "hash_dataString rt s =
     (let vd = verificationData s
      in json_object
           [(''surveyId'', json_key (surveyId vd)),
            (''startTime'', json_string_or_null (startTime vd)),
            (''endTime'', json_string_or_null (endTime vd)),
            (''startLocation'', json_location rt (startLocation vd)),
            (''endLocation'', json_location rt (endLocation vd)),
            (''answerCount'', nat_str (length (answerTimestamps vd))),
            (''locationCount'', nat_str (length (locationHistory vd)))])"

text \<open>
  One round of the loop: \<open>hash = ((hash << 5) - hash) + char; hash = hash & hash\<close>. The
  shift and the final \<open>&\<close> are on 32-bit integers, the subtraction and the addition
  between them are exact, so the round is arithmetic modulo \<open>2^32\<close>.
\<close>

definition hash_step :: "32 word \<Rightarrow> 16 word \<Rightarrow> 32 word" where
  "hash_step hash char = (push_bit 5 hash - hash) + ucast char"

definition hash_string :: "jsstring \<Rightarrow> 32 word" where
  "hash_string dataString = foldl hash_step 0 dataString"

text \<open>\<open>Math.abs(hash).toString(16)\<close>, the hash read as a signed integer.\<close>

definition generateVerificationHash :: "js_runtime \<Rightarrow> recorder \<Rightarrow> jsstring" where
  "generateVerificationHash rt s =
     nat_toString 16 (nat \<bar>sint (hash_string (hash_dataString rt s))\<bar>)"

subsection \<open>Completing a survey\<close>

record complete_env =
  end_fix :: "location option"
  end_now :: jsstring
  completed_now :: jsstring

text \<open>
  \<open>new Date(endTime) - new Date(startTime)\<close> in milliseconds, \<open>new Date(null)\<close> being
  the epoch, and \<open>Math.round\<close> of the seconds, which rounds a half upwards.
\<close>

definition survey_duration :: "js_runtime \<Rightarrow> verification_data \<Rightarrow> int" where
  "survey_duration rt vd =
     (let ms = (case endTime vd of None \<Rightarrow> 0 | Some t \<Rightarrow> date_parse rt t)
             - (case startTime vd of None \<Rightarrow> 0 | Some t \<Rightarrow> date_parse rt t)
      in (ms + 500) div 1000)"

definition make_packet :: "verification_data \<Rightarrow> jsstring \<Rightarrow> verification_packet" where
  "make_packet vd now =
     \<lparr>surveyId = surveyId vd, startTime = startTime vd, endTime = endTime vd,
      startLocation = startLocation vd, endLocation = endLocation vd,
      environmentPhoto = environmentPhoto vd, answerTimestamps = answerTimestamps vd,
      locationHistory = locationHistory vd, deviceInfo = deviceInfo vd,
      duration = duration vd, verificationHash = verificationHash vd,
      completedAt = now, version = lit ''1.0''\<rparr>"

definition completeSurvey ::
  "js_runtime \<Rightarrow> complete_env \<Rightarrow> recorder \<Rightarrow> (verification_error + verification_packet) \<times> recorder"
where
  "completeSurvey rt env s =
     (if \<not> isActive s then (Inl NoActiveSurvey, s)
      else
        (let s1 = stopLocationTracking s
         in case end_fix env of
              None \<Rightarrow> (Inl VerificationCompletionFailed, s1)
            | Some loc \<Rightarrow>
                (let vd1 = (verificationData s1)\<lparr>endLocation := Some loc,
                             endTime := Some (end_now env)\<rparr>;
                     vd2 = vd1\<lparr>duration := Some (survey_duration rt vd1)\<rparr>;
                     s2 = s1\<lparr>verificationData := vd2\<rparr>;
                     vd3 = vd2\<lparr>verificationHash := Some (generateVerificationHash rt s2)\<rparr>;
                     s3 = s2\<lparr>verificationData := vd3\<rparr>
                 in (Inr (make_packet vd3 (completed_now env)), s3\<lparr>currentSurvey := None\<rparr>))))"

subsection \<open>Status\<close>

record verification_status =
  status_isActive :: bool
  status_surveyId :: "js_key option"
  status_startTime :: "jsstring option"
  answerCount :: nat
  locationCount :: nat
  status_isTracking :: bool

definition getVerificationStatus :: "recorder \<Rightarrow> verification_status" where
  "getVerificationStatus s =
     \<lparr>status_isActive = isActive s,
      status_surveyId = currentSurvey s,
      status_startTime = startTime (verificationData s),
      answerCount = length (answerTimestamps (verificationData s)),
      locationCount = length (locationHistory (verificationData s)),
      status_isTracking = isTracking s\<rparr>"

section \<open>Storage Service\<close>

subsection \<open>Data\<close>

text \<open>
  A survey packet, as the survey screen assembles it and as the store keeps it. The
  fields the store stamps are absent (\<open>None\<close>) on a packet that never had them.
\<close>

record survey_packet =
  pkt_surveyId :: js_key
  answers :: "(js_key \<times> js_answer) list"
  pkt_notes :: jsstring
  verification :: "verification_packet option"
  pkt_completedAt :: jsstring
  status :: "jsstring option"
  syncStatus :: "jsstring option"
  createdAt :: "jsstring option"
  syncedAt :: "jsstring option"

text \<open>
  The service object (\<open>isInitialized\<close>, \<open>useLocalStorageFallback\<close>, and \<open>db\<close>, true once
  \<open>this.db\<close> holds the opened database) together with the two media it writes: the
  object store \<open>surveyPackets\<close> of the database, keyed by \<open>surveyId\<close>, and
  \<open>localStorage\<close>, keyed by strings.
\<close>

record storage =
  isInitialized :: bool
  useLocalStorageFallback :: bool
  db :: bool
  surveyPackets :: "(js_key \<times> survey_packet) list"
  localStorage :: "(jsstring \<times> survey_packet) list"

definition new_storage :: storage where
  "new_storage =
     \<lparr>isInitialized = False, useLocalStorageFallback = False, db = False,
      surveyPackets = [], localStorage = []\<rparr>"

datatype storage_error =
    OpenException
  | StorageInitFailed
  | PacketSaveFailed
  | DataClearFailed
  | RequestFailed

text \<open>
  What opening the database does: \<open>window.indexedDB\<close> is missing, the call
  \<open>indexedDB.open\<close> throws inside the executor of the promise (which rejects it), or
  the request fires its error or its success event. Before the success event of a
  first open, the upgrade handler creates the object store, which is the list
  \<open>surveyPackets\<close> here.
\<close>

datatype open_outcome =
    NoIndexedDB
  | OpenRaises
  | OpenFiresError
  | OpenFiresSuccess

text \<open>
  What one call of the service meets: the outcome of opening the database should the
  service not be initialised yet, whether the medium serves a read and accepts a
  write, and the clock.
\<close>

record store_env =
  open_event :: open_outcome
  read_ok :: bool
  write_ok :: bool
  store_now :: jsstring

subsection \<open>Initialisation\<close>

definition initializeDB :: "open_outcome \<Rightarrow> storage \<Rightarrow> (storage_error + unit) \<times> storage" where
  "initializeDB ev st =
     (case ev of
        NoIndexedDB \<Rightarrow> (Inr (), st\<lparr>useLocalStorageFallback := True\<rparr>)
      | OpenRaises \<Rightarrow> (Inl OpenException, st)
      | OpenFiresError \<Rightarrow> (Inr (), st\<lparr>useLocalStorageFallback := True\<rparr>)
      | OpenFiresSuccess \<Rightarrow> (Inr (), st\<lparr>db := True\<rparr>))"

definition initialize :: "open_outcome \<Rightarrow> storage \<Rightarrow> (storage_error + unit) \<times> storage" where
  "initialize ev st =
     (if isInitialized st then (Inr (), st)
      else
        (case initializeDB ev st of
           (Inl e, st1) \<Rightarrow> (Inl StorageInitFailed, st1)
         | (Inr u, st1) \<Rightarrow> (Inr (), st1\<lparr>isInitialized := True\<rparr>)))"

definition ensureInitialized :: "open_outcome \<Rightarrow> storage \<Rightarrow> (storage_error + unit) \<times> storage" where
  "ensureInitialized ev st = (if \<not> isInitialized st then initialize ev st else (Inr (), st))"

subsection \<open>The two media\<close>

definition startsWith :: "jsstring \<Rightarrow> jsstring \<Rightarrow> bool" where
  "startsWith s p = (take (length p) s = p)"

text \<open>The \<open>localStorage\<close> key of a packet: \<open>`survey_${surveyId}`\<close>.\<close>

definition storage_key :: "js_key \<Rightarrow> jsstring" where
  "storage_key sid = lit ''survey_'' @ key_str sid"

text \<open>
  The helpers over the database. A request on a database that was never opened throws
  in the executor; a request the medium refuses fires \<open>onerror\<close>; both reject. The
  list \<open>surveyPackets\<close> holds the records in the order they were first put; \<open>getAll\<close>
  on the store, and on its index for one value of \<open>syncStatus\<close>, gives them in the
  order of their keys.
\<close>

definition putData :: "bool \<Rightarrow> survey_packet \<Rightarrow> storage \<Rightarrow> (storage_error + unit) \<times> storage" where
  "putData ok data st =
     (if db st \<and> ok
      then (Inr (), st\<lparr>surveyPackets := AList.update (pkt_surveyId data) data (surveyPackets st)\<rparr>)
      else (Inl RequestFailed, st))"

definition getData :: "bool \<Rightarrow> js_key \<Rightarrow> storage \<Rightarrow> storage_error + survey_packet option" where
  "getData ok k st = (if db st \<and> ok then Inr (map_of (surveyPackets st) k) else Inl RequestFailed)"

definition getAllData :: "bool \<Rightarrow> storage \<Rightarrow> storage_error + survey_packet list" where
  "getAllData ok st =
     (if db st \<and> ok then Inr (map snd (in_key_order (surveyPackets st))) else Inl RequestFailed)"

definition getDataByIndex :: "bool \<Rightarrow> jsstring \<Rightarrow> storage \<Rightarrow> storage_error + survey_packet list" where
  "getDataByIndex ok v st =
     (if db st \<and> ok
      then Inr (filter (\<lambda>p. syncStatus p = Some v) (map snd (in_key_order (surveyPackets st))))
      else Inl RequestFailed)"

definition clearStore :: "bool \<Rightarrow> storage \<Rightarrow> (storage_error + unit) \<times> storage" where
  "clearStore ok st =
     (if db st \<and> ok then (Inr (), st\<lparr>surveyPackets := []\<rparr>) else (Inl RequestFailed, st))"

text \<open>The entries of \<open>localStorage\<close> whose key starts with \<open>survey_\<close>, parsed.\<close>

definition survey_entries :: "storage \<Rightarrow> survey_packet list" where
  "survey_entries st =
     map snd (filter (\<lambda>(k, p). startsWith k (lit ''survey_'')) (localStorage st))"

subsection \<open>Operations\<close>

text \<open>\<open>packet.status || 'completed'\<close>: an absent or empty status is replaced.\<close>

definition status_or_completed :: "jsstring option \<Rightarrow> jsstring" where
  "status_or_completed v =
     (case v of None \<Rightarrow> lit ''completed'' | Some s \<Rightarrow> if s = [] then lit ''completed'' else s)"

text \<open>
  The object \<open>packetData\<close> of \<open>saveSurveyPacket\<close>: the packet given, with its
  status defaulted, \<open>syncStatus\<close> set to pending and \<open>createdAt\<close> set to the clock.
\<close>

definition stamped :: "store_env \<Rightarrow> survey_packet \<Rightarrow> survey_packet" where
  "stamped env packet =
     packet\<lparr>status := Some (status_or_completed (status packet)),
            syncStatus := Some (lit ''pending''), createdAt := Some (store_now env)\<rparr>"

definition saveSurveyPacket ::
  "store_env \<Rightarrow> survey_packet \<Rightarrow> storage \<Rightarrow> (storage_error + survey_packet) \<times> storage"
where
  "saveSurveyPacket env packet st =
     (case ensureInitialized (open_event env) st of
        (Inl e, st1) \<Rightarrow> (Inl e, st1)
      | (Inr u, st1) \<Rightarrow>
          (let packetData = stamped env packet
           in if useLocalStorageFallback st1
              then
                (if write_ok env
                 then (Inr packetData,
                       st1\<lparr>localStorage :=
                             AList.update (storage_key (pkt_surveyId packet)) packetData
                               (localStorage st1)\<rparr>)
                 else (Inl PacketSaveFailed, st1))
              else
                (case putData (write_ok env) packetData st1 of
                   (Inl e, st2) \<Rightarrow> (Inl PacketSaveFailed, st2)
                 | (Inr u, st2) \<Rightarrow> (Inr packetData, st2))))"

definition getSurveyPacketsForSync ::
  "store_env \<Rightarrow> storage \<Rightarrow> (storage_error + survey_packet list) \<times> storage"
where
  "getSurveyPacketsForSync env st =
     (case ensureInitialized (open_event env) st of
        (Inl e, st1) \<Rightarrow> (Inl e, st1)
      | (Inr u, st1) \<Rightarrow>
          (if useLocalStorageFallback st1
           then
             (if read_ok env
              then (Inr (filter (\<lambda>p. syncStatus p = Some (lit ''pending'')) (survey_entries st1)), st1)
              else (Inr [], st1))
           else
             (case getDataByIndex (read_ok env) (lit ''pending'') st1 of
                Inl e \<Rightarrow> (Inr [], st1)
              | Inr packets \<Rightarrow> (Inr packets, st1))))"

definition mark_synced :: "jsstring \<Rightarrow> survey_packet \<Rightarrow> survey_packet" where
  "mark_synced now packet = packet\<lparr>syncStatus := Some (lit ''synced''), syncedAt := Some now\<rparr>"

definition markPacketAsSynced ::
  "store_env \<Rightarrow> js_key \<Rightarrow> storage \<Rightarrow> (storage_error + unit) \<times> storage"
where
  "markPacketAsSynced env sid st =
     (case ensureInitialized (open_event env) st of
        (Inl e, st1) \<Rightarrow> (Inl e, st1)
      | (Inr u, st1) \<Rightarrow>
          (if useLocalStorageFallback st1
           then
             (let key = storage_key sid
              in case map_of (localStorage st1) key of
                   None \<Rightarrow> (Inr (), st1)
                 | Some packet \<Rightarrow>
                     (if read_ok env \<and> write_ok env
                      then (Inr (),
                            st1\<lparr>localStorage :=
                                  AList.update key (mark_synced (store_now env) packet)
                                    (localStorage st1)\<rparr>)
                      else (Inr (), st1)))
           else
             (case getData (read_ok env) sid st1 of
                Inl e \<Rightarrow> (Inr (), st1)
              | Inr None \<Rightarrow> (Inr (), st1)
              | Inr (Some packet) \<Rightarrow>
                  (case putData (write_ok env) (mark_synced (store_now env) packet) st1 of
                     (Inl e, st2) \<Rightarrow> (Inr (), st2)
                   | (Inr u, st2) \<Rightarrow> (Inr (), st2)))))"

record storage_stats =
  totalSurveys :: nat
  completedSurveys :: nat
  pendingSync :: nat
  syncedSurveys :: nat
  lastUpdate :: jsstring

definition stats_of :: "jsstring \<Rightarrow> survey_packet list \<Rightarrow> storage_stats" where
  "stats_of now packets =
     \<lparr>totalSurveys = length packets,
      completedSurveys = length packets,
      pendingSync = length (filter (\<lambda>p. syncStatus p = Some (lit ''pending'')) packets),
      syncedSurveys = length (filter (\<lambda>p. syncStatus p = Some (lit ''synced'')) packets),
      lastUpdate = now\<rparr>"

definition zero_stats :: "jsstring \<Rightarrow> storage_stats" where
  "zero_stats now =
     \<lparr>totalSurveys = 0, completedSurveys = 0, pendingSync = 0, syncedSurveys = 0,
      lastUpdate = now\<rparr>"

definition getStorageStats ::
  "store_env \<Rightarrow> storage \<Rightarrow> (storage_error + storage_stats) \<times> storage"
where
  "getStorageStats env st =
     (case ensureInitialized (open_event env) st of
        (Inl e, st1) \<Rightarrow> (Inl e, st1)
      | (Inr u, st1) \<Rightarrow>
          (if useLocalStorageFallback st1
           then
             (if read_ok env then (Inr (stats_of (store_now env) (survey_entries st1)), st1)
              else (Inr (zero_stats (store_now env)), st1))
           else
             (case getAllData (read_ok env) st1 of
                Inl e \<Rightarrow> (Inr (zero_stats (store_now env)), st1)
              | Inr packets \<Rightarrow> (Inr (stats_of (store_now env) packets), st1))))"

text \<open>
  On the fallback the loop only reads the keys; the one call that the medium can
  refuse is \<open>removeItem\<close>, made for the keys collected, if there are any.
\<close>

definition clearAllData :: "store_env \<Rightarrow> storage \<Rightarrow> (storage_error + unit) \<times> storage" where
  "clearAllData env st =
     (case ensureInitialized (open_event env) st of
        (Inl e, st1) \<Rightarrow> (Inl e, st1)
      | (Inr u, st1) \<Rightarrow>
          (if useLocalStorageFallback st1
           then
             (let keysToRemove =
                    filter (\<lambda>k. startsWith k (lit ''survey_'')) (map fst (localStorage st1))
              in if keysToRemove \<noteq> [] \<and> \<not> write_ok env
                 then (Inl DataClearFailed, st1)
                 else (Inr (),
                       st1\<lparr>localStorage :=
                             filter (\<lambda>(k, p). k \<notin> set keysToRemove) (localStorage st1)\<rparr>))
           else
             (case clearStore (write_ok env) st1 of
                (Inl e, st2) \<Rightarrow> (Inl DataClearFailed, st2)
              | (Inr u, st2) \<Rightarrow> (Inr (), st2))))"

subsection \<open>Sequences of store operations\<close>

datatype store_op =
    Save survey_packet
  | MarkSynced js_key
  | ClearAll

fun apply_store_op :: "store_env \<times> store_op \<Rightarrow> storage \<Rightarrow> storage" where
  "apply_store_op (env, Save packet) st = snd (saveSurveyPacket env packet st)"
| "apply_store_op (env, MarkSynced sid) st = snd (markPacketAsSynced env sid st)"
| "apply_store_op (env, ClearAll) st = snd (clearAllData env st)"

fun run_store_ops :: "(store_env \<times> store_op) list \<Rightarrow> storage \<Rightarrow> storage" where
  "run_store_ops [] st = st"
| "run_store_ops (op # ops) st = run_store_ops ops (apply_store_op op st)"

text \<open>
  The packet the store holds for an identifier, on the medium in use: what
  \<open>localStorage.getItem\<close> resp. \<open>getData\<close> finds for it.
\<close>

definition stored_packet :: "storage \<Rightarrow> js_key \<Rightarrow> survey_packet option" where
  "stored_packet st sid =
     (if useLocalStorageFallback st then map_of (localStorage st) (storage_key sid)
      else map_of (surveyPackets st) sid)"

text \<open>Whether two identifiers name the same place on the medium in use.\<close>

definition same_slot :: "storage \<Rightarrow> js_key \<Rightarrow> js_key \<Rightarrow> bool" where
  "same_slot st a b =
     (if useLocalStorageFallback st then storage_key a = storage_key b else a = b)"

definition is_synced :: "storage \<Rightarrow> js_key \<Rightarrow> bool" where
  "is_synced st k =
     (case stored_packet st k of
        None \<Rightarrow> False
      | Some p \<Rightarrow> syncStatus p = Some (lit ''synced''))"

text \<open>
  The operations that replace or remove what is stored for \<open>k\<close>: a save under the
  place of \<open>k\<close>, and the clearing of the store.
\<close>

fun writes_slot :: "storage \<Rightarrow> js_key \<Rightarrow> store_op \<Rightarrow> bool" where
  "writes_slot st k (Save packet) = same_slot st (pkt_surveyId packet) k"
| "writes_slot st k (MarkSynced sid) = False"
| "writes_slot st k ClearAll = True"

definition sync_status_ok :: "survey_packet \<Rightarrow> bool" where
  "sync_status_ok p =
     (syncStatus p = Some (lit ''pending'') \<or> syncStatus p = Some (lit ''synced''))"

text \<open>Every packet on either medium, as the statistics and the sync read them.\<close>

definition held_packets :: "storage \<Rightarrow> survey_packet list" where
  "held_packets st = map snd (surveyPackets st) @ survey_entries st"

definition store_ok :: "storage \<Rightarrow> bool" where
  "store_ok st = list_all sync_status_ok (held_packets st)"

section \<open>Sync Service\<close>

subsection \<open>Data\<close>

text \<open>
  The fields of the service object that its methods read or write. \<open>syncProgress\<close> is
  a percentage, kept here as an exact number.
\<close>

record sync_service =
  isOnline :: bool
  isSyncing :: bool
  syncProgress :: real
  maxRetries :: nat

datatype sync_error =
    NoConnection
  | SyncInProgress
  | StoreError storage_error

text \<open>One element of \<open>results\<close>; a field the object literal does not set is \<open>None\<close>.\<close>

record packet_result =
  result_success :: bool
  result_surveyId :: js_key
  s3Key :: "jsstring option"
  uploadedAt :: "jsstring option"
  error_message :: "jsstring option"

text \<open>
  The object \<open>syncAllPendingData\<close> resolves to; \<open>total\<close> and \<open>results\<close> are \<open>None\<close> on
  an object literal that has no such property.
\<close>

record sync_result =
  success :: bool
  synced :: nat
  failed :: nat
  total :: "nat option"
  results :: "packet_result list option"

text \<open>
  What the host gives for a date: year, month (from 0) and day of the month of
  \<open>new Date(s)\<close> in local time.
\<close>

record date_runtime =
  getFullYear :: "jsstring \<Rightarrow> int"
  getMonth :: "jsstring \<Rightarrow> nat"
  getDate :: "jsstring \<Rightarrow> nat"

text \<open>
  What the round for one packet meets: whether the simulated upload rejects (with
  which message), the store call, the clock as a time stamp and as \<open>Date.now()\<close>.
\<close>

record upload_env =
  upload_error :: "jsstring option"
  mark_env :: store_env
  upload_now :: jsstring
  upload_millis :: nat

record sync_env =
  list_env :: store_env
  packet_env :: "nat \<Rightarrow> upload_env"

subsection \<open>Keys\<close>

text \<open>\<open>s.padStart(2, '0')\<close>.\<close>

definition padStart2 :: "jsstring \<Rightarrow> jsstring" where
  "padStart2 s = replicate (2 - length s) 48 @ s"

definition generateS3Key :: "date_runtime \<Rightarrow> nat \<Rightarrow> survey_packet \<Rightarrow> jsstring" where
  "generateS3Key dr millis packet =
     (let year = int_str (getFullYear dr (pkt_completedAt packet));
          month = padStart2 (nat_str (getMonth dr (pkt_completedAt packet) + 1));
          day = padStart2 (nat_str (getDate dr (pkt_completedAt packet)))
      in lit ''surveys/'' @ year @ lit ''/'' @ month @ lit ''/'' @ day @ lit ''/''
           @ key_str (pkt_surveyId packet) @ lit ''_'' @ nat_str millis @ lit ''.json'')"

definition storage_error_message :: "storage_error \<Rightarrow> jsstring" where
  "storage_error_message e =
     (case e of
        StorageInitFailed \<Rightarrow> lit ''Storage initialization failed''
      | PacketSaveFailed \<Rightarrow> lit ''Survey packet save failed''
      | DataClearFailed \<Rightarrow> lit ''Data clear failed''
      | OpenException \<Rightarrow> lit ''open''
      | RequestFailed \<Rightarrow> lit ''request'')"

subsection \<open>The sync run\<close>

text \<open>The variables of the loop: both services and the three accumulators.\<close>

record sync_loop_state =
  service :: sync_service
  store :: storage
  syncedCount :: nat
  failedCount :: nat
  loop_results :: "packet_result list"

text \<open>The body of the loop for the packet at index \<open>i\<close> of \<open>n\<close>.\<close>

definition sync_packet ::
  "date_runtime \<Rightarrow> upload_env \<Rightarrow> nat \<Rightarrow> nat \<Rightarrow> survey_packet \<Rightarrow> sync_loop_state \<Rightarrow> sync_loop_state"
where
  "sync_packet dr env n i packet ls =
     (let ls1 = ls\<lparr>service := (service ls)\<lparr>syncProgress := (real (i + 1) / real n) * 100\<rparr>\<rparr>;
          failure = (\<lambda>msg st.
            ls1\<lparr>store := st, failedCount := failedCount ls1 + 1,
                loop_results := loop_results ls1 @
                  [\<lparr>result_success = False, result_surveyId = pkt_surveyId packet,
                    s3Key = None, uploadedAt = None, error_message = Some msg\<rparr>]\<rparr>)
      in case upload_error env of
           Some msg \<Rightarrow> failure msg (store ls1)
         | None \<Rightarrow>
             (case markPacketAsSynced (mark_env env) (pkt_surveyId packet) (store ls1) of
                (Inl e, st) \<Rightarrow> failure (storage_error_message e) st
              | (Inr u, st) \<Rightarrow>
                  ls1\<lparr>store := st, syncedCount := syncedCount ls1 + 1,
                      loop_results := loop_results ls1 @
                        [\<lparr>result_success = True, result_surveyId = pkt_surveyId packet,
                          s3Key = Some (generateS3Key dr (upload_millis env) packet),
                          uploadedAt = Some (upload_now env), error_message = None\<rparr>]\<rparr>))"

text \<open>The variables as the loop starts with them.\<close>

definition loop_start :: "sync_service \<Rightarrow> storage \<Rightarrow> sync_loop_state" where
  "loop_start sv st =
     \<lparr>service = sv, store = st, syncedCount = 0, failedCount = 0, loop_results = []\<rparr>"

text \<open>The loop from index \<open>i\<close> on, over the packets still to do.\<close>

fun sync_loop ::
  "date_runtime \<Rightarrow> sync_env \<Rightarrow> nat \<Rightarrow> nat \<Rightarrow> survey_packet list \<Rightarrow> sync_loop_state \<Rightarrow> sync_loop_state"
where
  "sync_loop dr env n i [] ls = ls"
| "sync_loop dr env n i (packet # rest) ls =
     sync_loop dr env n (i + 1) rest (sync_packet dr (packet_env env i) n i packet ls)"

text \<open>The \<open>try\<close> block of \<open>syncAllPendingData\<close>.\<close>

definition sync_try ::
  "date_runtime \<Rightarrow> sync_env \<Rightarrow> sync_service \<Rightarrow> storage \<Rightarrow>
     (sync_error + sync_result) \<times> sync_service \<times> storage"
where
  "sync_try dr env sv st =
     (case getSurveyPacketsForSync (list_env env) st of
        (Inl e, st1) \<Rightarrow> (Inl (StoreError e), sv, st1)
      | (Inr pendingPackets, st1) \<Rightarrow>
          (if length pendingPackets = 0
           then (Inr \<lparr>success = True, synced = 0, failed = 0, total = None, results = None\<rparr>,
                 sv, st1)
           else
             (let ls = sync_loop dr env (length pendingPackets) 0 pendingPackets
                         (loop_start sv st1)
              in (Inr \<lparr>success = (failedCount ls = 0), synced = syncedCount ls,
                       failed = failedCount ls, total = Some (length pendingPackets),
                       results = Some (loop_results ls)\<rparr>,
                  service ls, store ls))))"

text \<open>
  The part of a call that runs before its first \<open>await\<close>: the two guards, each of which
  throws, and the two flags set before the \<open>try\<close>.
\<close>

definition sync_enter :: "sync_service \<Rightarrow> sync_error + sync_service" where
  "sync_enter sv =
     (if \<not> isOnline sv then Inl NoConnection
      else if isSyncing sv then Inl SyncInProgress
      else Inr (sv\<lparr>isSyncing := True, syncProgress := 0\<rparr>))"

text \<open>The \<open>finally\<close> block.\<close>

definition sync_finally :: "sync_service \<Rightarrow> sync_service" where
  "sync_finally sv = sv\<lparr>isSyncing := False, syncProgress := 0\<rparr>"

text \<open>A whole call, from the guards to the \<open>finally\<close> block.\<close>

definition syncAllPendingData ::
  "date_runtime \<Rightarrow> sync_env \<Rightarrow> sync_service \<Rightarrow> storage \<Rightarrow>
     (sync_error + sync_result) \<times> sync_service \<times> storage"
where
  "syncAllPendingData dr env sv st =
     (case sync_enter sv of
        Inl e \<Rightarrow> (Inl e, sv, st)
      | Inr sv1 \<Rightarrow>
          (case sync_try dr env sv1 st of
             (r, sv2, st2) \<Rightarrow> (r, sync_finally sv2, st2)))"

text \<open>
  A call that has passed the guards is suspended at each \<open>await\<close>, and other calls run
  meanwhile on the same service object. \<open>sync_inflight dr env sv st k\<close> is that object
  as the run started by the call on \<open>sv\<close> and \<open>st\<close> has left it when it is suspended:
  for \<open>k = 0\<close> while it waits for the pending packets; for \<open>k > 0\<close> while it waits in
  the round of the \<open>k\<close>-th packet, which has set the progress before its first
  \<open>await\<close> and writes nothing else to the service. It is \<open>None\<close> when the call was
  refused and when the run has no \<open>k\<close>-th packet.
\<close>

definition sync_inflight ::
  "date_runtime \<Rightarrow> sync_env \<Rightarrow> sync_service \<Rightarrow> storage \<Rightarrow> nat \<Rightarrow> sync_service option"
where
  "sync_inflight dr env sv st k =
     (case sync_enter sv of
        Inl e \<Rightarrow> None
      | Inr sv1 \<Rightarrow>
          (if k = 0 then Some sv1
           else
             (case getSurveyPacketsForSync (list_env env) st of
                (Inl e, st1) \<Rightarrow> None
              | (Inr pendingPackets, st1) \<Rightarrow>
                  (if k \<le> length pendingPackets
                   then Some (service (sync_loop dr env (length pendingPackets) 0
                                         (take k pendingPackets) (loop_start sv1 st1)))
                   else None))))"

section \<open>Completing a survey from the survey screen\<close>

datatype session_error =
    VerificationFailed verification_error
  | SaveFailed storage_error

record session_env =
  session_complete :: complete_env
  session_now :: jsstring
  session_store :: store_env

text \<open>
  \<open>handleComplete\<close> of the survey screen followed by \<open>handleCompleteSurvey\<close> of the
  application, which it calls through \<open>onComplete\<close>: the packet is saved only when
  \<open>completeSurvey\<close> has returned.
\<close>

definition handleComplete ::
  "js_runtime \<Rightarrow> session_env \<Rightarrow> js_key \<Rightarrow> (js_key \<times> js_answer) list \<Rightarrow> jsstring \<Rightarrow>
     recorder \<Rightarrow> storage \<Rightarrow> (session_error + survey_packet) \<times> recorder \<times> storage"
where
  "handleComplete rt env survey_id ans nts s st =
     (case completeSurvey rt (session_complete env) s of
        (Inl e, s1) \<Rightarrow> (Inl (VerificationFailed e), s1, st)
      | (Inr finalVerificationData, s1) \<Rightarrow>
          (let surveyPacket =
                 \<lparr>pkt_surveyId = survey_id, answers = ans, pkt_notes = nts,
                  verification = Some finalVerificationData,
                  pkt_completedAt = session_now env,
                  status = Some (lit ''completed''), syncStatus = None, createdAt = None,
                  syncedAt = None\<rparr>
           in case saveSurveyPacket (session_store env) surveyPacket st of
                (Inl e, st1) \<Rightarrow> (Inl (SaveFailed e), s1, st1)
              | (Inr saved, st1) \<Rightarrow> (Inr saved, s1, st1)))"

section \<open>Concrete surroundings for the worked instances\<close>

definition demo_runtime :: js_runtime where
  "demo_runtime =
     \<lparr>number_toString = (\<lambda>x. lit ''25.6123''), date_parse = (\<lambda>t. 1000 * int (length t))\<rparr>"

definition demo_dates :: date_runtime where
  "demo_dates = \<lparr>getFullYear = (\<lambda>t. 2024), getMonth = (\<lambda>t. 0), getDate = (\<lambda>t. 15)\<rparr>"

definition demo_fix :: "nat \<Rightarrow> location" where
  "demo_fix n =
     \<lparr>latitude = 25.6123 + real n / 1000, longitude = 85.1274, accuracy = 10,
      timestamp = lit ''2024-01-15T10:00:00.000Z''\<rparr>"

definition demo_device :: device_info where
  "demo_device =
     \<lparr>userAgent = lit ''Mozilla/5.0'', platform = lit ''Linux'', language = lit ''en-IN'',
      timezone = lit ''Asia/Kolkata'', screenResolution = lit ''360x640'',
      device_timestamp = lit ''2024-01-15T10:00:00.000Z''\<rparr>"

definition demo_start :: start_env where
  "demo_start =
     \<lparr>start_now = lit ''2024-01-15T10:00:00.000Z'', start_fix = Some (demo_fix 0),
      start_device = demo_device, start_handle = 7\<rparr>"

text \<open>The recorder after \<open>startSurvey(1)\<close> on a fresh service.\<close>

definition demo_active :: recorder where
  "demo_active = snd (startSurvey (KNum (JSInt 1)) demo_start new_recorder)"

definition demo_log :: log_env where
  "demo_log = \<lparr>log_fix = None, log_now = lit ''2024-01-15T10:01:00.000Z''\<rparr>"

definition demo_complete :: complete_env where
  "demo_complete =
     \<lparr>end_fix = Some (demo_fix 1), end_now = lit ''2024-01-15T10:30:00.000Z'',
      completed_now = lit ''2024-01-15T10:30:00.000Z''\<rparr>"

definition demo_store_env :: store_env where
  "demo_store_env =
     \<lparr>open_event = OpenFiresSuccess, read_ok = True, write_ok = True,
      store_now = lit ''2024-01-15T10:31:00.000Z''\<rparr>"

definition demo_packet :: "js_key \<Rightarrow> survey_packet" where
  "demo_packet sid =
     \<lparr>pkt_surveyId = sid, answers = [(KNum (JSInt 1), AStr (lit ''Rice''))], pkt_notes = [],
      verification = None, pkt_completedAt = lit ''2024-01-15T10:30:00.000Z'',
      status = Some (lit ''completed''), syncStatus = None, createdAt = None,
      syncedAt = None\<rparr>"

definition demo_session :: session_env where
  "demo_session =
     \<lparr>session_complete = demo_complete, session_now = lit ''2024-01-15T10:30:00.000Z'',
      session_store = demo_store_env\<rparr>"

definition demo_sync_env :: sync_env where
  "demo_sync_env =
     \<lparr>list_env = demo_store_env,
      packet_env = (\<lambda>i. \<lparr>upload_error = None, mark_env = demo_store_env,
                          upload_now = lit ''2024-01-15T11:00:00.000Z'',
                          upload_millis = 1705316400000 + i\<rparr>)\<rparr>"

definition demo_service :: sync_service where
  "demo_service = \<lparr>isOnline = True, isSyncing = False, syncProgress = 0, maxRetries = 3\<rparr>"

text \<open>The same recorder after one text answer logged without a fix.\<close>

definition demo_answered :: recorder where
  "demo_answered = snd (logAnswer (KNum (JSInt 2)) (AStr (lit ''Rice'')) demo_log demo_active)"

text \<open>A recorder that differs from it in the answer logged and in the tracking flag.\<close>

definition demo_other :: recorder where
  "demo_other =
     snd (logAnswer (KNum (JSInt 5)) (AObj (Some (lit ''photo'')) None)
            \<lparr>log_fix = Some (demo_fix 3), log_now = lit ''2024-01-15T10:02:00.000Z''\<rparr>
            (demo_active\<lparr>isTracking := False\<rparr>))"

text \<open>Eleven samples with an answer between the sixth and the seventh.\<close>

definition demo_samples :: "recorder_event list" where
  "demo_samples =
     map (\<lambda>n. Sample (demo_fix n)) [1, 2, 3, 4, 5, 6] @
     [Answer (KNum (JSInt 1)) (AStr (lit ''Rice'')) demo_log] @
     map (\<lambda>n. Sample (demo_fix n)) [7, 8, 9, 10, 11]"

text \<open>Two surveys saved, the first of them synced.\<close>

definition demo_ops :: "(store_env \<times> store_op) list" where
  "demo_ops =
     [(demo_store_env, Save (demo_packet (KNum (JSInt 1)))),
      (demo_store_env, Save (demo_packet (KNum (JSInt 2)))),
      (demo_store_env, MarkSynced (KNum (JSInt 1)))]"

definition demo_store :: storage where
  "demo_store = run_store_ops demo_ops new_storage"

text \<open>A host without \<open>indexedDB\<close>, and its store after survey 1 was saved and synced.\<close>

definition demo_fallback_env :: store_env where
  "demo_fallback_env =
     \<lparr>open_event = NoIndexedDB, read_ok = True, write_ok = True,
      store_now = lit ''2024-01-15T10:31:00.000Z''\<rparr>"

definition demo_fallback_store :: storage where
  "demo_fallback_store =
     run_store_ops
       [(demo_fallback_env, Save (demo_packet (KNum (JSInt 1)))),
        (demo_fallback_env, MarkSynced (KNum (JSInt 1)))] new_storage"

section \<open>Properties of the Verification Service\<close>

lemma lit_text_length: "length (lit s) = length s"
  by (simp add: lit_def)

lemma new_recorder_idle: "\<not> isActive new_recorder"
  by (simp add: isActive_def new_recorder_def)

lemma demo_active_isActive: "isActive demo_active"
  by (simp add: demo_active_def demo_start_def startSurvey_def Let_def isActive_def
      startLocationTracking_def new_recorder_def)

lemma demo_active_fields:
  "answerTimestamps (verificationData demo_active) = [] \<and>
   locationHistory (verificationData demo_active) = [] \<and>
   startTime (verificationData demo_active) = Some (lit ''2024-01-15T10:00:00.000Z'') \<and>
   currentSurvey demo_active = Some (KNum (JSInt 1)) \<and> isTracking demo_active \<and>
   locationWatcher demo_active = Some 7"
  by (simp add: demo_active_def demo_start_def startSurvey_def Let_def
      startLocationTracking_def new_recorder_def initial_data_def)

lemma demo_answered_fields:
  "isActive demo_answered \<and>
   length (answerTimestamps (verificationData demo_answered)) = 1 \<and>
   locationHistory (verificationData demo_answered) = [] \<and>
   startTime (verificationData demo_answered) = Some (lit ''2024-01-15T10:00:00.000Z'') \<and>
   locationWatcher demo_answered = Some 7"
  using demo_active_isActive
  by (simp add: demo_answered_def logAnswer_def Let_def demo_active_fields isActive_def)

subsection \<open>Logging an answer\<close>



subsection \<open>Location history\<close>

lemma slice_last_length: "length (slice_last n xs) = min n (length xs)"
  by (simp add: slice_last_def)

lemma slice_last_short: "length xs \<le> n \<Longrightarrow> slice_last n xs = xs"
  by (simp add: slice_last_def)

lemma slice_last_append:
  "slice_last n (slice_last n xs @ ys) = slice_last n (xs @ ys)"
proof (cases "n \<le> length xs")
  case True
  then have "length xs + length ys - (length xs - n + n) + (length xs - n) =
      length xs + length ys - n"
    by arith
  then show ?thesis by (simp add: slice_last_def)
next
  case False
  then show ?thesis by (simp add: slice_last_def)
qed

lemma history_sample:
  "length (locationHistory (verificationData s)) \<le> 10 \<Longrightarrow>
   locationHistory (verificationData (location_sample loc s)) =
     slice_last 10 (locationHistory (verificationData s) @ [loc])"
  by (simp add: location_sample_def slice_last_def Let_def)

lemma history_logAnswer:
  "locationHistory (verificationData (snd (logAnswer qid a env s))) =
     locationHistory (verificationData s)"
  by (simp add: logAnswer_def Let_def)

text \<open>
  From a history within the bound, any interleaving of samples and answers leaves the
  last ten of the old history followed by the samples.
\<close>

lemma history_run_events:
  "length (locationHistory (verificationData s)) \<le> 10 \<Longrightarrow>
   locationHistory (verificationData (run_events es s)) =
     slice_last 10 (locationHistory (verificationData s) @ samples_of es)"
proof (induction es arbitrary: s)
  case Nil
  then show ?case by (simp add: slice_last_short)
next
  case (Cons e es)
  show ?case
  proof (cases e)
    case (Sample loc)
    have h: "locationHistory (verificationData (location_sample loc s)) =
       slice_last 10 (locationHistory (verificationData s) @ [loc])"
      using Cons.prems by (rule history_sample)
    then have "length (locationHistory (verificationData (location_sample loc s))) \<le> 10"
      by (simp add: slice_last_length)
    from Cons.IH [OF this] h Sample show ?thesis
      using slice_last_append
        [of 10 "locationHistory (verificationData s) @ [loc]" "samples_of es"]
      by simp
  next
    case (Answer qid a env)
    with Cons show ?thesis by (simp add: history_logAnswer)
  qed
qed

lemma startSurvey_history:
  "fst (startSurvey sid env s) = Inr vd \<Longrightarrow>
   locationHistory (verificationData (snd (startSurvey sid env s))) = []"
  by (auto simp: startSurvey_def Let_def initial_data_def startLocationTracking_def
      split: option.splits)

text \<open>
  Claim C6. After \<open>startSurvey\<close> has returned, whatever samples the interval callback
  takes, interleaved with whatever answers are logged, \<open>locationHistory\<close> holds the
  samples taken so far without the earliest ones beyond ten, in arrival order: its
  length is the number of samples up to ten and exactly ten from the tenth sample on.
\<close>

theorem locationHistory_last_ten:
  assumes "fst (startSurvey sid env s) = Inr vd"
  shows "locationHistory (verificationData (run_events es (snd (startSurvey sid env s)))) =
           drop (length (samples_of es) - 10) (samples_of es) \<and>
         length (locationHistory (verificationData (run_events es (snd (startSurvey sid env s)))))
           = min 10 (length (samples_of es))"
proof -
  let ?s0 = "snd (startSurvey sid env s)"
  have empty: "locationHistory (verificationData ?s0) = []"
    using assms by (rule startSurvey_history)
  then have "locationHistory (verificationData (run_events es ?s0)) =
      slice_last 10 (samples_of es)"
    using history_run_events [of ?s0 es] by simp
  then show ?thesis
    by (simp add: slice_last_def)
qed

text \<open>Eleven samples after \<open>startSurvey(1)\<close>: the first is gone, the other ten remain in order.\<close>

theorem locationHistory_last_ten_witness:
  "fst (startSurvey (KNum (JSInt 1)) demo_start new_recorder) =
     Inr (verificationData demo_active) \<and>
   locationHistory (verificationData (run_events demo_samples demo_active)) =
     map demo_fix [2, 3, 4, 5, 6, 7, 8, 9, 10, 11]"
proof -
  have started: "fst (startSurvey (KNum (JSInt 1)) demo_start new_recorder) =
      Inr (verificationData demo_active)"
    by (simp add: demo_active_def startSurvey_def demo_start_def Let_def)
  have samples: "samples_of demo_samples = map demo_fix [1, 2, 3, 4, 5, 6, 7, 8, 9, 10, 11]"
    by (simp add: demo_samples_def)
  show ?thesis
    using locationHistory_last_ten [OF started, of demo_samples] started
    by (simp add: samples demo_active_def)
qed

subsection \<open>Completion\<close>

lemma stop_data: "verificationData (stopLocationTracking s) = verificationData s"
  by (simp add: stopLocationTracking_def split: option.splits)

lemma stop_tracking:
  "isTracking (stopLocationTracking s) = (locationWatcher s = None \<and> isTracking s)"
  by (simp add: stopLocationTracking_def split: option.splits)

text \<open>
  Claim C8. Without an active survey \<open>completeSurvey\<close> fails with the error "No active
  survey to complete" and leaves the recorder as it was; the completion of the survey
  screen, which saves a packet only after \<open>completeSurvey\<close> has returned, then fails
  too and leaves the recorder and the whole store, hence every stored packet, as they
  were.
\<close>

theorem complete_idle_changes_nothing:
  assumes "\<not> isActive s"
  shows "completeSurvey rt (session_complete env) s = (Inl NoActiveSurvey, s) \<and>
         handleComplete rt env survey_id ans nts s st =
           (Inl (VerificationFailed NoActiveSurvey), s, st)"
  using assms by (simp add: completeSurvey_def handleComplete_def)

text \<open>A fresh recorder and a store that holds the packet of survey 4.\<close>

theorem complete_idle_changes_nothing_witness:
  "\<not> isActive new_recorder \<and>
   completeSurvey demo_runtime demo_complete new_recorder = (Inl NoActiveSurvey, new_recorder) \<and>
   handleComplete demo_runtime demo_session (KNum (JSInt 1)) [] [] new_recorder
       (snd (saveSurveyPacket demo_store_env (demo_packet (KNum (JSInt 4))) new_storage)) =
     (Inl (VerificationFailed NoActiveSurvey), new_recorder,
      snd (saveSurveyPacket demo_store_env (demo_packet (KNum (JSInt 4))) new_storage))"
  using complete_idle_changes_nothing [OF new_recorder_idle, of demo_runtime demo_session]
    new_recorder_idle
  by (simp add: demo_session_def)

text \<open>
  Claim C3, as the code has it. After a successful \<open>completeSurvey\<close> the status reports
  no active survey and no survey identifier, and tracking as stopped (when a watcher
  was installed); the start time, the number of answers and the number of locations
  it reports are still those of the completed record, which stays in
  \<open>verificationData\<close> until the next \<open>startSurvey\<close> replaces it.
\<close>

theorem status_after_complete:
  assumes "fst (completeSurvey rt env s) = Inr packet"
  shows "getVerificationStatus (snd (completeSurvey rt env s)) =
           \<lparr>status_isActive = False, status_surveyId = None,
            status_startTime = startTime (verificationData s),
            answerCount = length (answerTimestamps (verificationData s)),
            locationCount = length (locationHistory (verificationData s)),
            status_isTracking = (locationWatcher s = None \<and> isTracking s)\<rparr>"
  using assms
  by (auto simp: completeSurvey_def getVerificationStatus_def isActive_def Let_def
      stop_data stop_tracking split: if_splits option.splits)

lemma demo_complete_succeeds:
  "fst (completeSurvey demo_runtime demo_complete demo_answered) =
     Inr (projr (fst (completeSurvey demo_runtime demo_complete demo_answered)))"
  using demo_answered_fields
  by (simp add: completeSurvey_def demo_complete_def Let_def)

text \<open>Survey 1 with one answer, completed.\<close>

theorem status_after_complete_witness:
  "fst (completeSurvey demo_runtime demo_complete demo_answered) =
     Inr (projr (fst (completeSurvey demo_runtime demo_complete demo_answered))) \<and>
   getVerificationStatus (snd (completeSurvey demo_runtime demo_complete demo_answered)) =
     \<lparr>status_isActive = False, status_surveyId = None,
      status_startTime = Some (lit ''2024-01-15T10:00:00.000Z''),
      answerCount = 1, locationCount = 0, status_isTracking = False\<rparr>"
  using status_after_complete [OF demo_complete_succeeds] demo_complete_succeeds
  by (simp add: demo_answered_fields)

text \<open>
  Claim C3, as stated, fails: after that completion the status still carries the start
  time and the answer count of the completed survey.
\<close>

theorem status_retains_record_counterexample:
  "\<not> isl (fst (completeSurvey demo_runtime demo_complete demo_answered)) \<and>
   status_startTime
       (getVerificationStatus (snd (completeSurvey demo_runtime demo_complete demo_answered))) =
     Some (lit ''2024-01-15T10:00:00.000Z'') \<and>
   answerCount
       (getVerificationStatus (snd (completeSurvey demo_runtime demo_complete demo_answered))) = 1"
  using demo_answered_fields
  by (simp add: completeSurvey_def demo_complete_def Let_def getVerificationStatus_def stop_data)

subsection \<open>The verification hash\<close>

text \<open>
  The loop on two strings: a short one, and one whose hash is the least 32-bit integer,
  of which \<open>Math.abs\<close> is \<open>2^31\<close>, printed as \<open>80000000\<close>.
\<close>

lemma hash_string_abc: "sint (hash_string (lit ''abc'')) = 96354"
  by (simp add: hash_string_def hash_step_def lit_def)

lemma hash_string_least:
  "sint (hash_string (lit ''polygenelubricants'')) = - 2147483648 \<and>
   nat_toString 16 (nat \<bar>sint (hash_string (lit ''polygenelubricants''))\<bar>) = lit ''80000000''"
  by (simp add: hash_string_def hash_step_def lit_def nat_toString.simps digit_unit_def)

text \<open>
  Claim C9. The verification hash is a function of the survey identifier, the start and
  end time, the start and end location, the number of logged answers and the number
  of kept locations: two recorders that agree on these seven values have the same
  hash, whatever else they hold.
\<close>

theorem hash_depends_on_projection:
  assumes "surveyId (verificationData s) = surveyId (verificationData s')"
    and "startTime (verificationData s) = startTime (verificationData s')"
    and "endTime (verificationData s) = endTime (verificationData s')"
    and "startLocation (verificationData s) = startLocation (verificationData s')"
    and "endLocation (verificationData s) = endLocation (verificationData s')"
    and "length (answerTimestamps (verificationData s)) =
         length (answerTimestamps (verificationData s'))"
    and "length (locationHistory (verificationData s)) =
         length (locationHistory (verificationData s'))"
  shows "generateVerificationHash rt s = generateVerificationHash rt s'"
  using assms by (simp add: generateVerificationHash_def hash_dataString_def Let_def)

text \<open>Two recorders of survey 1 with one answer each, the answers being different.\<close>

theorem hash_depends_on_projection_witness:
  "answerTimestamps (verificationData demo_answered) \<noteq>
     answerTimestamps (verificationData demo_other) \<and>
   generateVerificationHash demo_runtime demo_answered =
     generateVerificationHash demo_runtime demo_other"
proof -
  have other: "verificationData demo_other =
      (verificationData demo_active)\<lparr>answerTimestamps :=
         [\<lparr>questionId = KNum (JSInt 5), log_timestamp = lit ''2024-01-15T10:02:00.000Z'',
           log_location = Some (demo_fix 3), answerType = lit ''photo'', answerLength = 0\<rparr>]\<rparr>"
    using demo_active_isActive
    by (simp add: demo_other_def logAnswer_def Let_def isActive_def demo_active_fields)
  have answered: "verificationData demo_answered =
      (verificationData demo_active)\<lparr>answerTimestamps :=
         [\<lparr>questionId = KNum (JSInt 2), log_timestamp = lit ''2024-01-15T10:01:00.000Z'',
           log_location = None, answerType = lit ''text'', answerLength = 4\<rparr>]\<rparr>"
    using demo_active_isActive
    by (simp add: demo_answered_def logAnswer_def Let_def isActive_def demo_active_fields
        demo_log_def lit_text_length)
  show ?thesis
    using hash_depends_on_projection [of demo_answered demo_other demo_runtime]
    by (simp add: other answered)
qed

section \<open>Properties of the Storage Service\<close>

lemma pending_not_synced: "lit ''pending'' \<noteq> lit ''synced''"
  by (simp add: lit_def)

subsection \<open>Initialisation\<close>

lemma ensureInitialized_done:
  "isInitialized st \<Longrightarrow> ensureInitialized ev st = (Inr (), st)"
  by (simp add: ensureInitialized_def)

lemma ensureInitialized_media:
  "surveyPackets (snd (ensureInitialized ev st)) = surveyPackets st \<and>
   localStorage (snd (ensureInitialized ev st)) = localStorage st"
  by (cases ev) (simp_all add: ensureInitialized_def initialize_def initializeDB_def)

lemma ensureInitialized_ok:
  "ensureInitialized ev st = (Inr u, st1) \<Longrightarrow> isInitialized st1"
  by (cases ev) (auto simp: ensureInitialized_def initialize_def initializeDB_def split: if_splits)

text \<open>
  Claim C2, as the code has it. \<open>initialize\<close> returns success when the service is
  initialised already, when the database opens, when the host has no \<open>indexedDB\<close>
  and when the open request fires its error event; in the last two cases it switches
  to the \<open>localStorage\<close> fallback. When the call \<open>indexedDB.open\<close> itself throws, the
  promise of \<open>initializeDB\<close> rejects and \<open>initialize\<close> fails with "Storage
  initialization failed", leaving the service uninitialised and without fallback.
\<close>

theorem initialize_outcomes:
  "(fst (initialize ev st) = Inr ()) = (isInitialized st \<or> ev \<noteq> OpenRaises) \<and>
   (isInitialized st \<longrightarrow> initialize ev st = (Inr (), st)) \<and>
   (\<not> isInitialized st \<and> (ev = NoIndexedDB \<or> ev = OpenFiresError) \<longrightarrow>
      initialize ev st = (Inr (), st\<lparr>useLocalStorageFallback := True, isInitialized := True\<rparr>)) \<and>
   (\<not> isInitialized st \<and> ev = OpenFiresSuccess \<longrightarrow>
      initialize ev st = (Inr (), st\<lparr>db := True, isInitialized := True\<rparr>)) \<and>
   (\<not> isInitialized st \<and> ev = OpenRaises \<longrightarrow>
      initialize ev st = (Inl StorageInitFailed, st))"
  by (cases ev) (simp_all add: initialize_def initializeDB_def)

text \<open>The four outcomes on a fresh service, and the failing one on an initialised service.\<close>

theorem initialize_outcomes_witness:
  "\<not> isInitialized new_storage \<and>
   initialize NoIndexedDB new_storage =
     (Inr (), new_storage\<lparr>useLocalStorageFallback := True, isInitialized := True\<rparr>) \<and>
   initialize OpenFiresError new_storage =
     (Inr (), new_storage\<lparr>useLocalStorageFallback := True, isInitialized := True\<rparr>) \<and>
   initialize OpenFiresSuccess new_storage =
     (Inr (), new_storage\<lparr>db := True, isInitialized := True\<rparr>) \<and>
   initialize OpenRaises new_storage = (Inl StorageInitFailed, new_storage) \<and>
   initialize OpenRaises (new_storage\<lparr>isInitialized := True\<rparr>) =
     (Inr (), new_storage\<lparr>isInitialized := True\<rparr>)"
  using initialize_outcomes [of NoIndexedDB new_storage]
    initialize_outcomes [of OpenFiresError new_storage]
    initialize_outcomes [of OpenFiresSuccess new_storage]
    initialize_outcomes [of OpenRaises new_storage]
    initialize_outcomes [of OpenRaises "new_storage\<lparr>isInitialized := True\<rparr>"]
  by (simp add: new_storage_def)

text \<open>
  Claim C2, as stated, fails: on a fresh service whose \<open>indexedDB.open\<close> throws,
  \<open>initialize\<close> fails its caller and does not fall back.
\<close>

theorem initialize_fails_counterexample:
  "fst (initialize OpenRaises new_storage) = Inl StorageInitFailed \<and>
   \<not> useLocalStorageFallback (snd (initialize OpenRaises new_storage))"
  by (simp add: initialize_def initializeDB_def new_storage_def)


subsection \<open>Sync status\<close>

lemma stored_local_update:
  "useLocalStorageFallback st \<Longrightarrow>
   stored_packet (st\<lparr>localStorage := AList.update key v (localStorage st)\<rparr>) k =
     (if storage_key k = key then Some v else stored_packet st k)"
  by (simp add: stored_packet_def update_conv')

lemma stored_db_update:
  "\<not> useLocalStorageFallback st \<Longrightarrow>
   stored_packet (st\<lparr>surveyPackets := AList.update key v (surveyPackets st)\<rparr>) k =
     (if k = key then Some v else stored_packet st k)"
  by (simp add: stored_packet_def update_conv')

lemma save_initialized_eq:
  assumes "isInitialized st"
  shows "saveSurveyPacket env packet st =
     (if useLocalStorageFallback st
      then (if write_ok env
            then (Inr (stamped env packet),
                  st\<lparr>localStorage := AList.update (storage_key (pkt_surveyId packet))
                                       (stamped env packet) (localStorage st)\<rparr>)
            else (Inl PacketSaveFailed, st))
      else (if db st \<and> write_ok env
            then (Inr (stamped env packet),
                  st\<lparr>surveyPackets := AList.update (pkt_surveyId packet)
                                        (stamped env packet) (surveyPackets st)\<rparr>)
            else (Inl PacketSaveFailed, st)))"
  using assms
  by (simp add: saveSurveyPacket_def ensureInitialized_done Let_def putData_def stamped_def)

lemma mark_synced_fields:
  "pkt_surveyId (mark_synced now p) = pkt_surveyId p \<and>
   syncStatus (mark_synced now p) = Some (lit ''synced'')"
  by (simp add: mark_synced_def)

lemma mark_initialized_eq:
  assumes "isInitialized st"
  shows "markPacketAsSynced env sid st =
     (Inr (),
      if useLocalStorageFallback st
      then (case map_of (localStorage st) (storage_key sid) of
              None \<Rightarrow> st
            | Some packet \<Rightarrow>
                if read_ok env \<and> write_ok env
                then st\<lparr>localStorage := AList.update (storage_key sid)
                          (mark_synced (store_now env) packet) (localStorage st)\<rparr>
                else st)
      else (if db st \<and> read_ok env
            then (case map_of (surveyPackets st) sid of
                    None \<Rightarrow> st
                  | Some packet \<Rightarrow>
                      if write_ok env
                      then st\<lparr>surveyPackets := AList.update (pkt_surveyId packet)
                                (mark_synced (store_now env) packet) (surveyPackets st)\<rparr>
                      else st)
            else st))"
  using assms
  by (simp add: markPacketAsSynced_def ensureInitialized_done Let_def putData_def getData_def
      mark_synced_fields split: option.splits)

lemma save_initialized:
  "isInitialized st \<Longrightarrow>
   isInitialized (snd (saveSurveyPacket env packet st)) \<and>
   useLocalStorageFallback (snd (saveSurveyPacket env packet st)) = useLocalStorageFallback st"
  by (simp add: save_initialized_eq)

lemma mark_initialized:
  "isInitialized st \<Longrightarrow>
   isInitialized (snd (markPacketAsSynced env sid st)) \<and>
   useLocalStorageFallback (snd (markPacketAsSynced env sid st)) = useLocalStorageFallback st"
  by (simp add: mark_initialized_eq split: option.splits)

lemma save_other_slot:
  "isInitialized st \<Longrightarrow> \<not> same_slot st (pkt_surveyId packet) k \<Longrightarrow>
   stored_packet (snd (saveSurveyPacket env packet st)) k = stored_packet st k"
  by (cases "useLocalStorageFallback st")
    (auto simp: save_initialized_eq same_slot_def stored_local_update stored_db_update)

lemma mark_keeps_synced:
  assumes "isInitialized st" and "is_synced st k"
  shows "is_synced (snd (markPacketAsSynced env sid st)) k"
proof (cases "useLocalStorageFallback st")
  case True
  then show ?thesis
    using assms
    by (auto simp: mark_initialized_eq is_synced_def stored_local_update mark_synced_fields
        split: option.splits)
next
  case False
  then show ?thesis
    using assms
    by (auto simp: mark_initialized_eq is_synced_def stored_db_update mark_synced_fields
        split: option.splits)
qed

lemma writes_slot_cong:
  "useLocalStorageFallback st' = useLocalStorageFallback st \<Longrightarrow>
   writes_slot st' k op = writes_slot st k op"
  by (cases op) (simp_all add: same_slot_def)

lemma synced_through_ops:
  "isInitialized st \<Longrightarrow> is_synced st k \<Longrightarrow>
   \<forall>(env, op) \<in> set ops. \<not> writes_slot st k op \<Longrightarrow>
   is_synced (run_store_ops ops st) k"
proof (induction ops arbitrary: st)
  case Nil
  then show ?case by simp
next
  case (Cons eo ops)
  obtain env op where eo: "eo = (env, op)" by (cases eo)
  have no: "\<not> writes_slot st k op" using Cons.prems(3) eo by simp
  have step: "isInitialized (apply_store_op eo st) \<and>
      useLocalStorageFallback (apply_store_op eo st) = useLocalStorageFallback st \<and>
      is_synced (apply_store_op eo st) k"
  proof (cases op)
    case (Save packet)
    with no have "\<not> same_slot st (pkt_surveyId packet) k" by simp
    then have "stored_packet (snd (saveSurveyPacket env packet st)) k = stored_packet st k"
      using Cons.prems(1) by (simp add: save_other_slot)
    then show ?thesis
      using Save eo Cons.prems(1,2) save_initialized [of st env packet]
      by (simp add: is_synced_def)
  next
    case (MarkSynced sid)
    then show ?thesis
      using eo Cons.prems(1,2) mark_initialized [of st env sid] mark_keeps_synced [of st k env sid]
      by simp
  next
    case ClearAll
    with no show ?thesis by simp
  qed
  have rest: "\<forall>(env, op) \<in> set ops. \<not> writes_slot (apply_store_op eo st) k op"
    using Cons.prems(3) step writes_slot_cong [of "apply_store_op eo st" st k] by auto
  show ?case
    using Cons.IH [of "apply_store_op eo st"] step rest by simp
qed


lemma save_via_init:
  assumes "ensureInitialized (open_event env) st = (Inr u, st1)"
  shows "saveSurveyPacket env packet st = saveSurveyPacket env packet st1"
proof -
  have "ensureInitialized (open_event env) st1 = (Inr (), st1)"
    using assms by (simp add: ensureInitialized_ok ensureInitialized_done)
  then show ?thesis
    using assms by (simp add: saveSurveyPacket_def)
qed

lemma save_stores_pending:
  assumes "fst (saveSurveyPacket env packet st) = Inr pd"
  shows "stored_packet (snd (saveSurveyPacket env packet st)) (pkt_surveyId packet) = Some pd \<and>
         syncStatus pd = Some (lit ''pending'')"
proof -
  obtain r st1 where e: "ensureInitialized (open_event env) st = (r, st1)"
    by (cases "ensureInitialized (open_event env) st")
  show ?thesis
  proof (cases r)
    case (Inl err)
    with e assms show ?thesis by (simp add: saveSurveyPacket_def)
  next
    case (Inr u)
    with e have init: "isInitialized st1" and same: "saveSurveyPacket env packet st =
        saveSurveyPacket env packet st1"
      by (simp_all add: ensureInitialized_ok save_via_init)
    show ?thesis
      using assms init unfolding same
      by (cases "useLocalStorageFallback st1")
        (auto simp: save_initialized_eq stored_local_update stored_db_update stamped_def
          split: if_splits)
  qed
qed

text \<open>
  Claim C1, as the code has it. On an initialised store, a packet that is stored as
  synced stays stored as synced through every sequence of saves, marks and clearings
  that neither clears the store nor saves a packet into the same stored entry: the
  entry of the same \<open>surveyId\<close> in the database, the entry under the same key
  \<open>survey_<surveyId>\<close> in \<open>localStorage\<close>. In particular \<open>markPacketAsSynced\<close> never
  takes a packet back to pending. Every save that succeeds stores its packet with
  \<open>syncStatus\<close> pending, whatever was stored in that entry before.
\<close>

theorem syncStatus_backward_only_by_save:
  "(isInitialized st \<and> is_synced st k \<and> (\<forall>(e, op) \<in> set ops. \<not> writes_slot st k op) \<longrightarrow>
      is_synced (run_store_ops ops st) k) \<and>
   (fst (saveSurveyPacket env packet st) = Inr pd \<longrightarrow>
      stored_packet (snd (saveSurveyPacket env packet st)) (pkt_surveyId packet) = Some pd \<and>
      syncStatus pd = Some (lit ''pending''))"
  using synced_through_ops [of st k ops] save_stores_pending [of env packet st pd]
  by blast

lemma demo_store_value:
  "demo_store =
     \<lparr>isInitialized = True, useLocalStorageFallback = False, db = True,
      surveyPackets =
        [(KNum (JSInt 1), mark_synced (store_now demo_store_env) (stamped demo_store_env (demo_packet (KNum (JSInt 1))))),
         (KNum (JSInt 2), stamped demo_store_env (demo_packet (KNum (JSInt 2))))],
      localStorage = []\<rparr>"
  by (simp add: demo_store_def demo_ops_def new_storage_def saveSurveyPacket_def
      markPacketAsSynced_def ensureInitialized_def initialize_def initializeDB_def
      demo_store_env_def putData_def getData_def Let_def stamped_def demo_packet_def
      mark_synced_fields)

lemma demo_store_synced: "isInitialized demo_store \<and> is_synced demo_store (KNum (JSInt 1))"
  by (simp add: demo_store_value is_synced_def stored_packet_def mark_synced_fields)

text \<open>
  In the store of two surveys, survey 1 stays synced while survey 2 is saved and marked,
  and a save of survey 3 stores it as pending.
\<close>

theorem syncStatus_backward_only_by_save_witness:
  "isInitialized demo_store \<and> is_synced demo_store (KNum (JSInt 1)) \<and>
   is_synced (run_store_ops [(demo_store_env, Save (demo_packet (KNum (JSInt 2)))),
                             (demo_store_env, MarkSynced (KNum (JSInt 2)))] demo_store) (KNum (JSInt 1)) \<and>
   fst (saveSurveyPacket demo_store_env (demo_packet (KNum (JSInt 3))) demo_store) =
     Inr (stamped demo_store_env (demo_packet (KNum (JSInt 3)))) \<and>
   stored_packet (snd (saveSurveyPacket demo_store_env (demo_packet (KNum (JSInt 3))) demo_store))
       (KNum (JSInt 3)) = Some (stamped demo_store_env (demo_packet (KNum (JSInt 3))))"
proof -
  have no: "\<forall>(e, op) \<in> set [(demo_store_env, Save (demo_packet (KNum (JSInt 2)))),
        (demo_store_env, MarkSynced (KNum (JSInt 2)))]. \<not> writes_slot demo_store (KNum (JSInt 1)) op"
    by (simp add: same_slot_def demo_store_value demo_packet_def)
  have saved: "fst (saveSurveyPacket demo_store_env (demo_packet (KNum (JSInt 3))) demo_store) =
      Inr (stamped demo_store_env (demo_packet (KNum (JSInt 3))))"
    using demo_store_synced
    by (simp add: save_initialized_eq) (simp add: demo_store_value demo_store_env_def)
  show ?thesis
    using syncStatus_backward_only_by_save
      [of demo_store "KNum (JSInt 1)" "[(demo_store_env, Save (demo_packet (KNum (JSInt 2)))),
          (demo_store_env, MarkSynced (KNum (JSInt 2)))]" demo_store_env "demo_packet (KNum (JSInt 3))"
        "stamped demo_store_env (demo_packet (KNum (JSInt 3)))"]
      no saved demo_store_synced
    by (simp add: demo_packet_def)
qed

text \<open>
  Claim C1, as stated, fails: saving survey 1 again, which is stored as synced, leaves
  it stored as pending.
\<close>

theorem save_resets_synced_counterexample:
  "is_synced demo_store (KNum (JSInt 1)) \<and>
   map_option syncStatus
     (stored_packet (snd (saveSurveyPacket demo_store_env (demo_packet (KNum (JSInt 1))) demo_store))
        (KNum (JSInt 1))) = Some (Some (lit ''pending'')) \<and>
   \<not> is_synced (snd (saveSurveyPacket demo_store_env (demo_packet (KNum (JSInt 1))) demo_store)) (KNum (JSInt 1))"
proof -
  have "saveSurveyPacket demo_store_env (demo_packet (KNum (JSInt 1))) demo_store =
      (Inr (stamped demo_store_env (demo_packet (KNum (JSInt 1)))),
       demo_store\<lparr>surveyPackets := AList.update (KNum (JSInt 1))
          (stamped demo_store_env (demo_packet (KNum (JSInt 1)))) (surveyPackets demo_store)\<rparr>)"
    using demo_store_synced
    by (simp add: save_initialized_eq) (simp add: demo_store_value demo_store_env_def demo_packet_def)
  then show ?thesis
    using demo_store_synced
    by (simp add: is_synced_def stored_packet_def update_conv' stamped_def pending_not_synced)
      (simp add: demo_store_value)
qed

text \<open>
  In \<open>localStorage\<close> the number 1 and the string of its digit have the same key, so
  there a save under the one identifier also replaces the packet of the other.
\<close>

lemma storage_key_shared: "storage_key (KNum (JSInt 1)) = storage_key (KStr (lit ''1''))"
  by (simp add: storage_key_def int_str_def nat_str_def nat_toString.simps digit_unit_def lit_def)

lemma demo_fallback_store_value:
  "demo_fallback_store =
     \<lparr>isInitialized = True, useLocalStorageFallback = True, db = False,
      surveyPackets = [],
      localStorage =
        [(storage_key (KNum (JSInt 1)),
          mark_synced (store_now demo_fallback_env)
            (stamped demo_fallback_env (demo_packet (KNum (JSInt 1)))))]\<rparr>"
  by (simp add: demo_fallback_store_def new_storage_def saveSurveyPacket_def
      markPacketAsSynced_def ensureInitialized_def initialize_def initializeDB_def
      demo_fallback_env_def Let_def stamped_def demo_packet_def mark_synced_fields)

lemma fallback_save_other_id_resets:
  "isInitialized demo_fallback_store \<and>
   is_synced demo_fallback_store (KNum (JSInt 1)) \<and>
   KStr (lit ''1'') \<noteq> KNum (JSInt 1) \<and>
   same_slot demo_fallback_store (KStr (lit ''1'')) (KNum (JSInt 1)) \<and>
   \<not> is_synced
       (snd (saveSurveyPacket demo_fallback_env (demo_packet (KStr (lit ''1'')))
               demo_fallback_store))
       (KNum (JSInt 1))"
proof -
  have init: "isInitialized demo_fallback_store \<and> useLocalStorageFallback demo_fallback_store"
    by (simp add: demo_fallback_store_value)
  have synced: "is_synced demo_fallback_store (KNum (JSInt 1))"
    by (simp add: is_synced_def stored_packet_def demo_fallback_store_value mark_synced_fields)
  have slot: "same_slot demo_fallback_store (KStr (lit ''1'')) (KNum (JSInt 1))"
    using init by (simp add: same_slot_def storage_key_shared)
  have ok: "write_ok demo_fallback_env"
    by (simp add: demo_fallback_env_def)
  have "\<not> is_synced
       (snd (saveSurveyPacket demo_fallback_env (demo_packet (KStr (lit ''1'')))
               demo_fallback_store))
       (KNum (JSInt 1))"
    using init ok
    by (simp add: save_initialized_eq is_synced_def stored_local_update demo_packet_def
        storage_key_shared stamped_def pending_not_synced)
  with init synced slot show ?thesis by simp
qed

subsection \<open>Statistics\<close>

lemma set_insert_by_key: "set (insert_by_key x ys) = insert x (set ys)"
  by (induction ys) auto

lemma set_in_key_order: "set (in_key_order al) = set al"
  by (induction al) (simp_all add: in_key_order_def set_insert_by_key)

lemma set_update_subset: "set (AList.update k v al) \<subseteq> insert (k, v) (set al)"
  by (induction al) auto

lemma store_ok_iff:
  "store_ok st =
     ((\<forall>(k, p) \<in> set (surveyPackets st). sync_status_ok p) \<and>
      (\<forall>(k, p) \<in> set (localStorage st). startsWith k (lit ''survey_'') \<longrightarrow> sync_status_ok p))"
  unfolding store_ok_def held_packets_def survey_entries_def list_all_iff
  by (auto; force)

lemma store_ok_media:
  "surveyPackets st' = surveyPackets st \<Longrightarrow> localStorage st' = localStorage st \<Longrightarrow>
   store_ok st' = store_ok st"
  by (simp add: store_ok_iff)

lemma store_ok_ensure: "store_ok (snd (ensureInitialized ev st)) = store_ok st"
  by (rule store_ok_media) (simp_all add: ensureInitialized_media)

lemma store_ok_put:
  assumes "store_ok st" and "sync_status_ok v"
  shows "store_ok (st\<lparr>surveyPackets := AList.update k v (surveyPackets st)\<rparr>)"
  using assms set_update_subset [of k v "surveyPackets st"]
  by (auto simp: store_ok_iff)

lemma store_ok_setItem:
  assumes "store_ok st" and "sync_status_ok v"
  shows "store_ok (st\<lparr>localStorage := AList.update k v (localStorage st)\<rparr>)"
  using assms set_update_subset [of k v "localStorage st"]
  by (auto simp: store_ok_iff)

lemma stamped_ok: "sync_status_ok (stamped env packet)"
  by (simp add: sync_status_ok_def stamped_def)

lemma mark_synced_ok: "sync_status_ok (mark_synced now packet)"
  by (simp add: sync_status_ok_def mark_synced_def)

lemma store_ok_save_initialized:
  "isInitialized st \<Longrightarrow> store_ok st \<Longrightarrow> store_ok (snd (saveSurveyPacket env packet st))"
  by (simp add: save_initialized_eq store_ok_put store_ok_setItem stamped_ok)

lemma store_ok_mark_initialized:
  "isInitialized st \<Longrightarrow> store_ok st \<Longrightarrow> store_ok (snd (markPacketAsSynced env sid st))"
  by (simp add: mark_initialized_eq store_ok_put store_ok_setItem mark_synced_ok
      split: option.splits)

lemma store_ok_clear_initialized:
  "isInitialized st \<Longrightarrow> store_ok st \<Longrightarrow> store_ok (snd (clearAllData env st))"
  by (auto simp: clearAllData_def ensureInitialized_done clearStore_def store_ok_iff Let_def)

lemma mark_via_init:
  assumes "ensureInitialized (open_event env) st = (Inr u, st1)"
  shows "markPacketAsSynced env sid st = markPacketAsSynced env sid st1"
proof -
  have "ensureInitialized (open_event env) st1 = (Inr (), st1)"
    using assms by (simp add: ensureInitialized_ok ensureInitialized_done)
  then show ?thesis
    using assms by (simp add: markPacketAsSynced_def)
qed

lemma clear_via_init:
  assumes "ensureInitialized (open_event env) st = (Inr u, st1)"
  shows "clearAllData env st = clearAllData env st1"
proof -
  have "ensureInitialized (open_event env) st1 = (Inr (), st1)"
    using assms by (simp add: ensureInitialized_ok ensureInitialized_done)
  then show ?thesis
    using assms by (simp add: clearAllData_def)
qed

lemma store_ok_apply:
  assumes "store_ok st"
  shows "store_ok (apply_store_op eo st)"
proof -
  obtain env op where eo: "eo = (env, op)" by (cases eo)
  obtain r st1 where e: "ensureInitialized (open_event env) st = (r, st1)"
    by (cases "ensureInitialized (open_event env) st")
  have ok1: "store_ok st1"
    using assms store_ok_ensure [of "open_event env" st] e by simp
  show ?thesis
  proof (cases r)
    case (Inl err)
    then have "apply_store_op eo st = st1"
      using eo e
      by (cases op) (simp_all add: saveSurveyPacket_def markPacketAsSynced_def clearAllData_def)
    with ok1 show ?thesis by simp
  next
    case (Inr u)
    with e have init: "isInitialized st1" by (simp add: ensureInitialized_ok)
    have "apply_store_op eo st = apply_store_op eo st1"
      using eo e Inr
      by (cases op) (simp_all add: save_via_init mark_via_init clear_via_init)
    moreover have "store_ok (apply_store_op eo st1)"
      using eo init ok1
      by (cases op)
        (simp_all add: store_ok_save_initialized store_ok_mark_initialized
          store_ok_clear_initialized)
    ultimately show ?thesis by simp
  qed
qed

lemma store_ok_run: "store_ok st \<Longrightarrow> store_ok (run_store_ops ops st)"
  by (induction ops arbitrary: st) (simp_all add: store_ok_apply)

lemma count_split:
  "list_all sync_status_ok ps \<Longrightarrow>
   length ps = length (filter (\<lambda>p. syncStatus p = Some (lit ''pending'')) ps) +
               length (filter (\<lambda>p. syncStatus p = Some (lit ''synced'')) ps)"
  by (induction ps) (auto simp: sync_status_ok_def pending_not_synced)

lemma stats_of_sum:
  "list_all sync_status_ok ps \<Longrightarrow>
   totalSurveys (stats_of now ps) = pendingSync (stats_of now ps) + syncedSurveys (stats_of now ps) \<and>
   completedSurveys (stats_of now ps) = totalSurveys (stats_of now ps)"
  using count_split [of ps] by (simp add: stats_of_def)

lemma stats_sum:
  assumes "store_ok st" and "fst (getStorageStats env st) = Inr stats"
  shows "totalSurveys stats = pendingSync stats + syncedSurveys stats \<and>
         completedSurveys stats = totalSurveys stats"
proof -
  obtain r st1 where e: "ensureInitialized (open_event env) st = (r, st1)"
    by (cases "ensureInitialized (open_event env) st")
  have ok1: "store_ok st1"
    using assms(1) store_ok_ensure [of "open_event env" st] e by simp
  then have ls_ok: "list_all sync_status_ok (survey_entries st1)"
    by (simp add: store_ok_def held_packets_def)
  have db_ok: "list_all sync_status_ok (map snd (in_key_order (surveyPackets st1)))"
    using ok1 by (simp add: store_ok_def held_packets_def list_all_iff set_in_key_order)
  have "stats = zero_stats (store_now env) \<or>
      stats = stats_of (store_now env) (map snd (in_key_order (surveyPackets st1))) \<or>
      stats = stats_of (store_now env) (survey_entries st1)"
    using assms(2) e
    by (cases r) (auto simp: getStorageStats_def getAllData_def split: if_splits)
  then show ?thesis
    using stats_of_sum [OF db_ok, of "store_now env"] stats_of_sum [OF ls_ok, of "store_now env"]
    by (auto simp: zero_stats_def)
qed

text \<open>
  Claim C10. From a store whose packets all have \<open>syncStatus\<close> pending or synced (the
  empty store among them), every sequence of saves, marks and clearings leads to such
  a store again, and every statistics snapshot taken there has \<open>totalSurveys =
  pendingSync + syncedSurveys\<close> and \<open>completedSurveys = totalSurveys\<close>.
\<close>

theorem stats_total_is_pending_plus_synced:
  assumes "store_ok st"
  shows "store_ok (run_store_ops ops st) \<and>
         (\<forall>env stats. fst (getStorageStats env (run_store_ops ops st)) = Inr stats \<longrightarrow>
            totalSurveys stats = pendingSync stats + syncedSurveys stats \<and>
            completedSurveys stats = totalSurveys stats)"
  using assms store_ok_run [of st ops] stats_sum [of "run_store_ops ops st"]
  by blast

lemma new_storage_ok: "store_ok new_storage"
  by (simp add: store_ok_def held_packets_def survey_entries_def new_storage_def)

lemma demo_stats:
  "fst (getStorageStats demo_store_env demo_store) =
     Inr \<lparr>totalSurveys = 2, completedSurveys = 2, pendingSync = 1, syncedSurveys = 1,
          lastUpdate = lit ''2024-01-15T10:31:00.000Z''\<rparr>"
proof -
  have init: "isInitialized demo_store"
    by (simp add: demo_store_value)
  have media: "\<not> useLocalStorageFallback demo_store \<and> db demo_store \<and>
      map (\<lambda>p. syncStatus p) (map snd (surveyPackets demo_store)) =
        [Some (lit ''synced''), Some (lit ''pending'')]"
    by (simp add: demo_store_value stamped_def mark_synced_def)
  have counts: "stats_of now (map snd (in_key_order (surveyPackets demo_store))) =
      \<lparr>totalSurveys = 2, completedSurveys = 2, pendingSync = 1, syncedSurveys = 1,
       lastUpdate = now\<rparr>" for now
    by (simp add: stats_of_def demo_store_value stamped_def mark_synced_def in_key_order_def
        pending_not_synced pending_not_synced [THEN not_sym])
  show ?thesis
    using media
    by (simp add: getStorageStats_def ensureInitialized_done [OF init] getAllData_def counts
        demo_store_env_def)
qed

text \<open>Two surveys saved on an empty store and the first synced: 2 = 1 + 1.\<close>

theorem stats_total_is_pending_plus_synced_witness:
  "store_ok new_storage \<and> store_ok (run_store_ops demo_ops new_storage) \<and>
   fst (getStorageStats demo_store_env (run_store_ops demo_ops new_storage)) =
     Inr \<lparr>totalSurveys = 2, completedSurveys = 2, pendingSync = 1, syncedSurveys = 1,
          lastUpdate = lit ''2024-01-15T10:31:00.000Z''\<rparr>"
  using stats_total_is_pending_plus_synced [OF new_storage_ok, of demo_ops] new_storage_ok
    demo_stats
  by (simp add: demo_store_def)


section \<open>Properties of the Sync Service\<close>

text \<open>The loop writes \<open>syncProgress\<close> only: the two flags keep their values through it.\<close>

lemma sync_packet_service:
  "service (sync_packet dr env n i packet ls) =
     (service ls)\<lparr>syncProgress := (real (i + 1) / real n) * 100\<rparr>"
  by (simp add: sync_packet_def Let_def split: option.splits sum.splits prod.splits)

lemma sync_packet_flags:
  "isOnline (service (sync_packet dr env n i packet ls)) = isOnline (service ls) \<and>
   isSyncing (service (sync_packet dr env n i packet ls)) = isSyncing (service ls)"
  by (simp add: sync_packet_service)

lemma sync_packet_counts:
  "syncedCount (sync_packet dr env n i packet ls) + failedCount (sync_packet dr env n i packet ls) =
     syncedCount ls + failedCount ls + 1 \<and>
   length (loop_results (sync_packet dr env n i packet ls)) = length (loop_results ls) + 1"
  by (simp add: sync_packet_def Let_def split: option.splits sum.splits prod.splits)

lemma sync_loop_flags:
  "isOnline (service (sync_loop dr env n i ps ls)) = isOnline (service ls) \<and>
   isSyncing (service (sync_loop dr env n i ps ls)) = isSyncing (service ls)"
  by (induction ps arbitrary: i ls) (simp_all add: sync_packet_flags)

lemma sync_loop_counts:
  "syncedCount (sync_loop dr env n i ps ls) + failedCount (sync_loop dr env n i ps ls) =
     syncedCount ls + failedCount ls + length ps \<and>
   length (loop_results (sync_loop dr env n i ps ls)) = length (loop_results ls) + length ps"
proof (induction ps arbitrary: i ls)
  case Nil
  then show ?case by simp
next
  case (Cons packet ps)
  show ?case
    using Cons.IH [of "i + 1" "sync_packet dr (packet_env env i) n i packet ls"]
      sync_packet_counts [of dr "packet_env env i" n i packet ls]
    by simp
qed

lemma sync_enter_started:
  "isOnline sv \<Longrightarrow> \<not> isSyncing sv \<Longrightarrow>
   sync_enter sv = Inr (sv\<lparr>isSyncing := True, syncProgress := 0\<rparr>)"
  by (simp add: sync_enter_def)

lemma sync_enter_flags:
  "sync_enter sv = Inr sv1 \<Longrightarrow> isOnline sv1 \<and> isSyncing sv1"
  by (auto simp: sync_enter_def split: if_splits)

lemma syncAll_offline:
  "\<not> isOnline sv \<Longrightarrow> syncAllPendingData dr env sv st = (Inl NoConnection, sv, st)"
  by (simp add: syncAllPendingData_def sync_enter_def)

lemma syncAll_busy:
  "isOnline sv \<Longrightarrow> isSyncing sv \<Longrightarrow>
   syncAllPendingData dr env sv st = (Inl SyncInProgress, sv, st)"
  by (simp add: syncAllPendingData_def sync_enter_def)

lemma syncAll_finally:
  assumes "isOnline sv" and "\<not> isSyncing sv"
  shows "\<not> isSyncing (fst (snd (syncAllPendingData dr env sv st))) \<and>
         syncProgress (fst (snd (syncAllPendingData dr env sv st))) = 0"
  using assms
  by (simp add: syncAllPendingData_def sync_enter_def sync_finally_def split: prod.splits)

lemma syncAll_not_busy:
  "\<not> isSyncing sv \<Longrightarrow> fst (syncAllPendingData dr env sv st) \<noteq> Inl SyncInProgress"
proof (cases "isOnline sv")
  case False
  then show ?thesis by (simp add: syncAll_offline)
next
  case True
  assume idle: "\<not> isSyncing sv"
  obtain r st1 where g: "getSurveyPacketsForSync (list_env env) st = (r, st1)"
    by (cases "getSurveyPacketsForSync (list_env env) st")
  show ?thesis
    using True idle g
    by (cases r) (simp_all add: syncAllPendingData_def sync_enter_def sync_try_def Let_def)
qed

text \<open>At every point where a run is suspended, both flags are set.\<close>

lemma sync_inflight_flags:
  assumes "sync_inflight dr env sv st k = Some mid"
  shows "isOnline mid \<and> isSyncing mid"
proof -
  obtain sv1 where enter: "sync_enter sv = Inr sv1"
    using assms by (cases "sync_enter sv") (simp_all add: sync_inflight_def)
  have flags: "isOnline sv1 \<and> isSyncing sv1"
    using enter by (rule sync_enter_flags)
  show ?thesis
  proof (cases "k = 0")
    case True
    with assms enter flags show ?thesis by (simp add: sync_inflight_def)
  next
    case False
    obtain r st1 where g: "getSurveyPacketsForSync (list_env env) st = (r, st1)"
      by (cases "getSurveyPacketsForSync (list_env env) st")
    show ?thesis
    proof (cases r)
      case (Inl e)
      with assms enter False g show ?thesis by (simp add: sync_inflight_def)
    next
      case (Inr ps)
      with assms enter False g
      have "mid = service (sync_loop dr env (length ps) 0 (take k ps) (loop_start sv1 st1))"
        by (simp add: sync_inflight_def split: if_splits)
      then show ?thesis
        using flags sync_loop_flags [of dr env "length ps" 0 "take k ps" "loop_start sv1 st1"]
        by (simp add: loop_start_def)
    qed
  qed
qed

text \<open>A run ends with the \<open>finally\<close> block, from one of its suspension points.\<close>

lemma syncAll_ends_inflight:
  assumes "isOnline sv" and "\<not> isSyncing sv"
  shows "\<exists>k mid. sync_inflight dr env sv st k = Some mid \<and>
           fst (snd (syncAllPendingData dr env sv st)) = sync_finally mid"
proof -
  let ?sv1 = "sv\<lparr>isSyncing := True, syncProgress := 0\<rparr>"
  have enter: "sync_enter sv = Inr ?sv1"
    using assms by (rule sync_enter_started)
  obtain r st1 where g: "getSurveyPacketsForSync (list_env env) st = (r, st1)"
    by (cases "getSurveyPacketsForSync (list_env env) st")
  have zero: "sync_inflight dr env sv st 0 = Some ?sv1"
    using enter by (simp add: sync_inflight_def)
  show ?thesis
  proof (cases r)
    case (Inl e)
    then have "fst (snd (syncAllPendingData dr env sv st)) = sync_finally ?sv1"
      using enter g by (simp add: syncAllPendingData_def sync_try_def)
    with zero show ?thesis by blast
  next
    case (Inr ps)
    show ?thesis
    proof (cases "ps = []")
      case True
      then have "fst (snd (syncAllPendingData dr env sv st)) = sync_finally ?sv1"
        using enter g Inr by (simp add: syncAllPendingData_def sync_try_def)
      with zero show ?thesis by blast
    next
      case False
      let ?mid = "service (sync_loop dr env (length ps) 0 ps (loop_start ?sv1 st1))"
      have "sync_inflight dr env sv st (length ps) = Some ?mid"
        using enter g Inr False by (simp add: sync_inflight_def)
      moreover have "fst (snd (syncAllPendingData dr env sv st)) = sync_finally ?mid"
        using enter g Inr False by (simp add: syncAllPendingData_def sync_try_def Let_def)
      ultimately show ?thesis by blast
    qed
  qed
qed

text \<open>
  Claim C5, as the code has it. \<open>syncAllPendingData\<close> fails with "No internet
  connection available" whenever the service is offline, and with "Sync already in
  progress" whenever it is online and a run is in flight; the connection is tested
  first, so an offline service with a run in flight reports the connection. A refused
  call changes nothing. A call that passes both guards has set \<open>isSyncing\<close> when it is
  first suspended, and \<open>isSyncing\<close> is set at every point where its run is suspended,
  so every call that overlaps the run is refused: as busy if the service is online
  at that moment, as offline if not. The run ends, on its every exit (a result with
  or without failed packets, or the error of the store passed on), from one of these
  points through the \<open>finally\<close> block, with \<open>isSyncing\<close> false and \<open>syncProgress\<close> 0,
  so that no later call is refused as busy.
\<close>

theorem syncAll_single_flight:
  "(\<not> isOnline sv \<longrightarrow> syncAllPendingData dr env sv st = (Inl NoConnection, sv, st)) \<and>
   (isOnline sv \<and> isSyncing sv \<longrightarrow>
      syncAllPendingData dr env sv st = (Inl SyncInProgress, sv, st)) \<and>
   (isOnline sv \<and> \<not> isSyncing sv \<longrightarrow>
      sync_inflight dr env sv st 0 = Some (sv\<lparr>isSyncing := True, syncProgress := 0\<rparr>) \<and>
      (\<exists>k mid. sync_inflight dr env sv st k = Some mid \<and>
         fst (snd (syncAllPendingData dr env sv st)) = sync_finally mid) \<and>
      \<not> isSyncing (fst (snd (syncAllPendingData dr env sv st))) \<and>
      syncProgress (fst (snd (syncAllPendingData dr env sv st))) = 0 \<and>
      (\<forall>env' st'. fst (syncAllPendingData dr env' (fst (snd (syncAllPendingData dr env sv st))) st')
         \<noteq> Inl SyncInProgress)) \<and>
   (\<forall>k mid. sync_inflight dr env sv st k = Some mid \<longrightarrow>
      isSyncing mid \<and>
      (\<forall>b env' st'.
         syncAllPendingData dr env' (mid\<lparr>isOnline := b\<rparr>) st' =
           (Inl (if b then SyncInProgress else NoConnection), mid\<lparr>isOnline := b\<rparr>, st')))"
proof (intro conjI impI allI)
  assume "\<not> isOnline sv"
  then show "syncAllPendingData dr env sv st = (Inl NoConnection, sv, st)"
    by (rule syncAll_offline)
next
  assume "isOnline sv \<and> isSyncing sv"
  then show "syncAllPendingData dr env sv st = (Inl SyncInProgress, sv, st)"
    by (simp add: syncAll_busy)
next
  assume "isOnline sv \<and> \<not> isSyncing sv"
  then show "sync_inflight dr env sv st 0 = Some (sv\<lparr>isSyncing := True, syncProgress := 0\<rparr>)"
    by (simp add: sync_inflight_def sync_enter_started)
next
  assume "isOnline sv \<and> \<not> isSyncing sv"
  then show "\<exists>k mid. sync_inflight dr env sv st k = Some mid \<and>
      fst (snd (syncAllPendingData dr env sv st)) = sync_finally mid"
    by (simp add: syncAll_ends_inflight)
next
  assume a: "isOnline sv \<and> \<not> isSyncing sv"
  then show idle: "\<not> isSyncing (fst (snd (syncAllPendingData dr env sv st)))"
    using syncAll_finally [of sv dr env st] by simp
  show "syncProgress (fst (snd (syncAllPendingData dr env sv st))) = 0"
    using a syncAll_finally [of sv dr env st] by simp
  show "fst (syncAllPendingData dr env' (fst (snd (syncAllPendingData dr env sv st))) st')
      \<noteq> Inl SyncInProgress" for env' st'
    using idle by (simp add: syncAll_not_busy)
next
  fix k mid
  assume "sync_inflight dr env sv st k = Some mid"
  then show "isSyncing mid"
    using sync_inflight_flags by blast
next
  fix k mid b env' st'
  assume "sync_inflight dr env sv st k = Some mid"
  then have "isSyncing mid"
    using sync_inflight_flags by blast
  then show "syncAllPendingData dr env' (mid\<lparr>isOnline := b\<rparr>) st' =
      (Inl (if b then SyncInProgress else NoConnection), mid\<lparr>isOnline := b\<rparr>, st')"
    by (simp add: syncAllPendingData_def sync_enter_def)
qed

lemma demo_service_flags: "isOnline demo_service \<and> \<not> isSyncing demo_service"
  by (simp add: demo_service_def)

lemma demo_pending:
  "getSurveyPacketsForSync demo_store_env demo_store =
     (Inr [stamped demo_store_env (demo_packet (KNum (JSInt 2)))], demo_store)"
proof -
  have init: "isInitialized demo_store"
    by (simp add: demo_store_value)
  show ?thesis
    by (simp add: getSurveyPacketsForSync_def ensureInitialized_done [OF init])
      (simp add: demo_store_value getDataByIndex_def in_key_order_def demo_store_env_def
        stamped_def mark_synced_def pending_not_synced [THEN not_sym])
qed

lemma demo_inflight:
  "sync_inflight demo_dates demo_sync_env demo_service demo_store 1 =
     Some (demo_service\<lparr>isSyncing := True, syncProgress := 100\<rparr>)"
  using demo_pending
  by (simp add: sync_inflight_def sync_enter_started demo_service_flags demo_sync_env_def
      sync_packet_service loop_start_def)

text \<open>
  The service with one pending packet in the store: offline, busy, a run followed by a
  second call, and a call made while the run is suspended after its one packet.
\<close>

theorem syncAll_single_flight_witness:
  "isOnline demo_service \<and> \<not> isSyncing demo_service \<and>
   syncAllPendingData demo_dates demo_sync_env
       (demo_service\<lparr>isOnline := False, isSyncing := True\<rparr>) demo_store =
     (Inl NoConnection, demo_service\<lparr>isOnline := False, isSyncing := True\<rparr>, demo_store) \<and>
   syncAllPendingData demo_dates demo_sync_env (demo_service\<lparr>isSyncing := True\<rparr>) demo_store =
     (Inl SyncInProgress, demo_service\<lparr>isSyncing := True\<rparr>, demo_store) \<and>
   \<not> isSyncing (fst (snd (syncAllPendingData demo_dates demo_sync_env demo_service demo_store))) \<and>
   syncProgress (fst (snd (syncAllPendingData demo_dates demo_sync_env demo_service demo_store))) = 0 \<and>
   fst (syncAllPendingData demo_dates demo_sync_env
          (fst (snd (syncAllPendingData demo_dates demo_sync_env demo_service demo_store)))
          demo_store) \<noteq> Inl SyncInProgress \<and>
   sync_inflight demo_dates demo_sync_env demo_service demo_store 1 =
     Some (demo_service\<lparr>isSyncing := True, syncProgress := 100\<rparr>) \<and>
   syncAllPendingData demo_dates demo_sync_env
       (demo_service\<lparr>isSyncing := True, syncProgress := 100\<rparr>) demo_store =
     (Inl SyncInProgress, demo_service\<lparr>isSyncing := True, syncProgress := 100\<rparr>, demo_store)"
proof -
  have all: "\<forall>k mid. sync_inflight demo_dates demo_sync_env demo_service demo_store k = Some mid \<longrightarrow>
      isSyncing mid \<and>
      (\<forall>b env' st'.
         syncAllPendingData demo_dates env' (mid\<lparr>isOnline := b\<rparr>) st' =
           (Inl (if b then SyncInProgress else NoConnection), mid\<lparr>isOnline := b\<rparr>, st'))"
    using syncAll_single_flight [of demo_service demo_dates demo_sync_env demo_store]
    by blast
  have "syncAllPendingData demo_dates demo_sync_env
      ((demo_service\<lparr>isSyncing := True, syncProgress := 100\<rparr>)\<lparr>isOnline := True\<rparr>) demo_store =
      (Inl (if True then SyncInProgress else NoConnection),
       (demo_service\<lparr>isSyncing := True, syncProgress := 100\<rparr>)\<lparr>isOnline := True\<rparr>, demo_store)"
    using all demo_inflight by blast
  then have inflight: "syncAllPendingData demo_dates demo_sync_env
      (demo_service\<lparr>isSyncing := True, syncProgress := 100\<rparr>) demo_store =
      (Inl SyncInProgress, demo_service\<lparr>isSyncing := True, syncProgress := 100\<rparr>, demo_store)"
    by (simp add: demo_service_def)
  show ?thesis
    using syncAll_single_flight [of "demo_service\<lparr>isOnline := False, isSyncing := True\<rparr>"
        demo_dates demo_sync_env demo_store]
      syncAll_single_flight [of "demo_service\<lparr>isSyncing := True\<rparr>" demo_dates demo_sync_env
        demo_store]
      syncAll_single_flight [of demo_service demo_dates demo_sync_env demo_store]
      demo_service_flags inflight demo_inflight
    by (simp add: demo_service_def)
qed

text \<open>
  Claim C5, as stated, fails: with that run in flight and the connection lost
  meanwhile, a call fails with the offline error, not with the busy error.
\<close>

theorem busy_call_offline_counterexample:
  "sync_inflight demo_dates demo_sync_env demo_service demo_store 1 =
     Some (demo_service\<lparr>isSyncing := True, syncProgress := 100\<rparr>) \<and>
   isSyncing (demo_service\<lparr>isSyncing := True, syncProgress := 100, isOnline := False\<rparr>) \<and>
   fst (syncAllPendingData demo_dates demo_sync_env
          (demo_service\<lparr>isSyncing := True, syncProgress := 100, isOnline := False\<rparr>) demo_store) =
     Inl NoConnection \<and>
   fst (syncAllPendingData demo_dates demo_sync_env
          (demo_service\<lparr>isSyncing := True, syncProgress := 100, isOnline := False\<rparr>) demo_store) \<noteq>
     Inl SyncInProgress"
  using demo_inflight by (simp add: syncAllPendingData_def sync_enter_def)

subsection \<open>The result\<close>

text \<open>
  With pending packets the result has all five fields: the total, one result for each
  packet, counts that add up to the total, and \<open>success\<close> exactly when none failed.
\<close>

lemma syncAll_nonempty_result:
  assumes "isOnline sv" and "\<not> isSyncing sv"
    and "getSurveyPacketsForSync (list_env env) st = (Inr ps, st1)" and "ps \<noteq> []"
  shows "\<exists>r rs. fst (syncAllPendingData dr env sv st) = Inr r \<and>
           total r = Some (length ps) \<and> results r = Some rs \<and> length rs = length ps \<and>
           synced r + failed r = length ps \<and> success r = (failed r = 0)"
  using assms
    sync_loop_counts [of dr env "length ps" 0 ps
      "loop_start (sv\<lparr>isSyncing := True, syncProgress := 0\<rparr>) st1"]
  by (simp add: syncAllPendingData_def sync_enter_def sync_try_def Let_def loop_start_def)

text \<open>
  Claim C4 at a store without pending packets, here the empty one: the object returned
  is \<open>{ success: true, synced: 0, failed: 0 }\<close>, which has neither the \<open>total\<close> nor
  the \<open>results\<close> that the other return of the same method sets.
\<close>

theorem sync_empty_result_lacks_total:
  "fst (syncAllPendingData demo_dates demo_sync_env demo_service new_storage) =
     Inr \<lparr>success = True, synced = 0, failed = 0, total = None, results = None\<rparr>"
  by (simp add: syncAllPendingData_def sync_enter_def sync_try_def getSurveyPacketsForSync_def
      ensureInitialized_def initialize_def initializeDB_def getDataByIndex_def in_key_order_def
      demo_service_def demo_sync_env_def demo_store_env_def new_storage_def Let_def)

end
